theory Spec2Isabelle
  imports Main
begin

section \<open>The configuration loader of \<^verbatim>\<open>cliconfig/loader.go\<close>\<close>

text \<open>
  The loader fills a configuration struct, field by field, from the command context,
  the process environment and an optional configuration file, using the struct tags of
  each field. The Go code works through reflection; the model makes the reflected
  struct explicit: a list of field descriptions (name, Go type, struct tag) and a store
  from field names to values.
\<close>

subsection \<open>Go values, types and kinds\<close>

text \<open>
  \<^verbatim>\<open>reflect.Kind\<close>: the four kinds the loader dispatches on, \<^verbatim>\<open>reflect.Invalid\<close>
  (what \<^verbatim>\<open>reflections.GetFieldKind\<close> returns with its error), and any other kind by name.
\<close>

datatype kind = KString | KSlice | KBool | KInt | KInvalid | KOther string

text \<open>
  The Go type of a struct field. The loader only ever produces values of the four
  types \<^verbatim>\<open>string\<close>, \<^verbatim>\<open>[]string\<close>, \<^verbatim>\<open>bool\<close> and \<^verbatim>\<open>int\<close>; every other type
  (a named string type, \<^verbatim>\<open>[]int\<close>, \<^verbatim>\<open>float64\<close>, ...) is \<open>TOther k n\<close>, with its
  kind \<open>k\<close> and its name \<open>n\<close>.
\<close>

datatype gotype = TString | TStrings | TBool | TInt | TOther kind string

fun kindOf :: "gotype \<Rightarrow> kind" where
  "kindOf TString = KString"
| "kindOf TStrings = KSlice"
| "kindOf TBool = KBool"
| "kindOf TInt = KInt"
| "kindOf (TOther k n) = k"

text \<open>
  An \<^verbatim>\<open>interface{}\<close> value: \<open>VNil\<close> is the nil interface; \<open>VOther k n len\<close> is a value
  of another type \<open>TOther k n\<close>, of which only its reflected length \<open>len\<close> is kept. Go's \<^verbatim>\<open>int\<close> is
  taken as 64 bits wide; the loader does no arithmetic on it, so it is an \<open>int\<close> here
  and the width only shows in \<open>Atoi\<close>.
\<close>

datatype val = VNil | VString string | VStrings "string list" | VBool bool | VInt int
  | VOther kind string nat

fun typeOf :: "val \<Rightarrow> gotype option" where
  "typeOf VNil = None"
| "typeOf (VString s) = Some TString"
| "typeOf (VStrings xs) = Some TStrings"
| "typeOf (VBool b) = Some TBool"
| "typeOf (VInt i) = Some TInt"
| "typeOf (VOther k n len) = Some (TOther k n)"

datatype 'a outcome = Returns 'a | Panics string

subsection \<open>Errors\<close>

datatype numError = ErrSyntax | ErrRange

text \<open>
  One constructor for each \<^verbatim>\<open>fmt.Errorf\<close> of the loader, with the arguments of its format.
  The format of \<^verbatim>\<open>Loader.Errorf\<close> is built at run time, so that error is kept as it is
  given to \<^verbatim>\<open>fmt.Errorf\<close>: \<open>Formatted format args\<close>.
\<close>

datatype error =
    ConfigFileNotFound string
  | FailedToGetType string
  | FailedToConvert numError
  | UnableToConvert kind
  | UnableToHandle kind
  | CouldNotSet val string string
  | RenameConflict string val string val
  | Formatted string "val list"
  | CouldNotFind string val
  | UnknownRule string
  | UnknownNormalization string
  | OnlyStringFields string
  | OnlySliceFields
  | SetFieldError string
  | External string

subsection \<open>The standard library functions the loader calls\<close>

text \<open>\<^verbatim>\<open>strings.Split(s, ",")\<close>, for a separator of one byte: never empty, \<open>[s]\<close> when
  \<open>s\<close> has no separator.\<close>

fun Split :: "string \<Rightarrow> char \<Rightarrow> string list" where
  "Split [] sep = [[]]"
| "Split (c # cs) sep =
     (if c = sep then [] # Split cs sep
      else (case Split cs sep of [] \<Rightarrow> [[c]] | t # ts \<Rightarrow> (c # t) # ts))"

definition isDigit :: "char \<Rightarrow> bool" where
  "isDigit c = (c \<in> set ''0123456789'')"

definition digitsValue :: "string \<Rightarrow> int" where
  "digitsValue s = foldl (\<lambda>n c. n * 10 + (of_char c - 48)) 0 s"

text \<open>
  \<^verbatim>\<open>strconv.Atoi\<close> on a 64-bit platform: an optional sign and decimal digits; the value
  0 with a syntax error otherwise; the nearest bound with a range error when the
  number does not fit.
\<close>

definition Atoi :: "string \<Rightarrow> int \<times> numError option" where
  "Atoi s =
     (let neg = (s \<noteq> [] \<and> hd s = CHR ''-'');
          body = (if s \<noteq> [] \<and> (hd s = CHR ''+'' \<or> hd s = CHR ''-'') then tl s else s)
      in if body = [] \<or> \<not> list_all isDigit body then (0, Some ErrSyntax)
         else (let n = digitsValue body
               in if neg then (if n > 2 ^ 63 then (- (2 ^ 63), Some ErrRange) else (- n, None))
                  else (if n > 2 ^ 63 - 1 then (2 ^ 63 - 1, Some ErrRange) else (n, None))))"

text \<open>\<^verbatim>\<open>strconv.ParseBool\<close>: the value (false with the error the loader drops).\<close>

definition ParseBool :: "string \<Rightarrow> bool \<times> numError option" where
  "ParseBool s =
     (if s \<in> set [''1'', ''t'', ''T'', ''TRUE'', ''true'', ''True''] then (True, None)
      else if s \<in> set [''0'', ''f'', ''F'', ''FALSE'', ''false'', ''False''] then (False, None)
      else (False, Some ErrSyntax))"

text \<open>
  \<^verbatim>\<open>strings.TrimSpace\<close> removes the leading and the trailing runes that \<^verbatim>\<open>unicode.IsSpace\<close>
  accepts. A string is its UTF-8 bytes here, so a white space rune is one of the byte
  sequences below: the six ASCII ones, U+0085, U+00A0, U+1680, U+2000 to U+200A, U+2028,
  U+2029, U+202F, U+205F and U+3000. The decoder accepts only the shortest encoding of a
  rune, so the string starts (ends) with a white space rune exactly when one of the
  sequences is a prefix (suffix) of it.
\<close>

definition spaceRunes :: "string list" where
  "spaceRunes =
     [[CHR 0x09], [CHR 0x0A], [CHR 0x0B], [CHR 0x0C], [CHR 0x0D], [CHR 0x20],
      [CHR 0xC2, CHR 0x85], [CHR 0xC2, CHR 0xA0],
      [CHR 0xE1, CHR 0x9A, CHR 0x80],
      [CHR 0xE2, CHR 0x80, CHR 0x80], [CHR 0xE2, CHR 0x80, CHR 0x81],
      [CHR 0xE2, CHR 0x80, CHR 0x82], [CHR 0xE2, CHR 0x80, CHR 0x83],
      [CHR 0xE2, CHR 0x80, CHR 0x84], [CHR 0xE2, CHR 0x80, CHR 0x85],
      [CHR 0xE2, CHR 0x80, CHR 0x86], [CHR 0xE2, CHR 0x80, CHR 0x87],
      [CHR 0xE2, CHR 0x80, CHR 0x88], [CHR 0xE2, CHR 0x80, CHR 0x89],
      [CHR 0xE2, CHR 0x80, CHR 0x8A],
      [CHR 0xE2, CHR 0x80, CHR 0xA8], [CHR 0xE2, CHR 0x80, CHR 0xA9],
      [CHR 0xE2, CHR 0x80, CHR 0xAF],
      [CHR 0xE2, CHR 0x81, CHR 0x9F],
      [CHR 0xE3, CHR 0x80, CHR 0x80]]"

text \<open>The sequence of \<open>rs\<close> the string starts with, if any.\<close>

definition leadingRune :: "string list \<Rightarrow> string \<Rightarrow> string option" where
  "leadingRune rs s = find (\<lambda>r. r \<noteq> [] \<and> take (length r) s = r) rs"

function dropRunes :: "string list \<Rightarrow> string \<Rightarrow> string" where
  "dropRunes rs s =
     (case leadingRune rs s of
        None \<Rightarrow> s
      | Some r \<Rightarrow> dropRunes rs (drop (length r) s))"
  by pat_completeness auto
termination
proof (relation "measure (\<lambda>(rs, s). length s)")
  show "wf (measure (\<lambda>(rs, s). length s))"
    by simp
next
  fix rs :: "string list" and s r :: string
  assume "leadingRune rs s = Some r"
  then have "r \<noteq> []" and "take (length r) s = r"
    by (auto simp: leadingRune_def find_Some_iff)
  then have "s \<noteq> []"
    by auto
  with \<open>r \<noteq> []\<close> show "((rs, drop (length r) s), (rs, s)) \<in> measure (\<lambda>(rs, s). length s)"
    by simp
qed

declare dropRunes.simps [simp del]

definition TrimSpace :: "string \<Rightarrow> string" where
  "TrimSpace s = rev (dropRunes (map rev spaceRunes) (rev (dropRunes spaceRunes s)))"

text \<open>
  \<^verbatim>\<open>argCliNameRegexp.FindStringSubmatch\<close> for the pattern \<^verbatim>\<open>arg:(\d+)\<close>: the leftmost
  place where \<^verbatim>\<open>arg:\<close> is followed by a digit, and there the longest run of digits
  (the submatch). \<open>None\<close> is the empty result.
\<close>

fun argCliNameRegexp :: "string \<Rightarrow> string option" where
  "argCliNameRegexp [] = None"
| "argCliNameRegexp (c # cs) =
     (if take 4 (c # cs) = ''arg:'' \<and> takeWhile isDigit (drop 4 (c # cs)) \<noteq> []
      then Some (takeWhile isDigit (drop 4 (c # cs)))
      else argCliNameRegexp cs)"

subsection \<open>The reflected configuration struct\<close>

record field =
  f_name :: string
  f_type :: gotype
  f_tags :: "(string \<times> string) list"

record config =
  Fields :: "field list"
  Values :: "string \<Rightarrow> val"

text \<open>\<^verbatim>\<open>StructTag.Get\<close>: the value of the first pair with the key, the empty string
  when there is none.\<close>

fun tagGet :: "(string \<times> string) list \<Rightarrow> string \<Rightarrow> string" where
  "tagGet [] key = []"
| "tagGet ((k, v) # kvs) key = (if k = key then v else tagGet kvs key)"

definition lookupField :: "config \<Rightarrow> string \<Rightarrow> field option" where
  "lookupField cfg name = find (\<lambda>f. f_name f = name) (Fields cfg)"

text \<open>
  The functions of the reflection library the loader uses. Each returns its zero value
  together with an error for a field the struct does not have; \<open>None\<close>, \<open>VNil\<close> and
  \<open>Inl\<close> are that error. \<^verbatim>\<open>SetField\<close> refuses a value whose type is not the field's.
\<close>

definition reflectFields :: "config \<Rightarrow> string list" where
  "reflectFields cfg = map f_name (Fields cfg)"

definition GetFieldTag :: "config \<Rightarrow> string \<Rightarrow> string \<Rightarrow> string option" where
  "GetFieldTag cfg name key = map_option (\<lambda>f. tagGet (f_tags f) key) (lookupField cfg name)"

definition tagOf :: "config \<Rightarrow> string \<Rightarrow> string \<Rightarrow> string" where
  "tagOf cfg name key = (case GetFieldTag cfg name key of None \<Rightarrow> [] | Some t \<Rightarrow> t)"

definition GetFieldKind :: "config \<Rightarrow> string \<Rightarrow> kind option" where
  "GetFieldKind cfg name = map_option (\<lambda>f. kindOf (f_type f)) (lookupField cfg name)"

definition GetField :: "config \<Rightarrow> string \<Rightarrow> val" where
  "GetField cfg name = (case lookupField cfg name of None \<Rightarrow> VNil | Some f \<Rightarrow> Values cfg name)"

definition SetField :: "config \<Rightarrow> string \<Rightarrow> val \<Rightarrow> string + config" where
  "SetField cfg name v =
     (case lookupField cfg name of
        None \<Rightarrow> Inl ''No such field''
      | Some f \<Rightarrow>
          if typeOf v \<noteq> Some (f_type f)
          then Inl ''Provided value type didn't match obj field type''
          else Inr (cfg\<lparr>Values := (Values cfg)(name := v)\<rparr>))"

subsection \<open>The collaborators: command context, configuration file, process\<close>

text \<open>A flag of the command, as \<^verbatim>\<open>reflections.GetField\<close> reads it: \<open>VNil\<close> for a
  flag type without the field.\<close>

record flag =
  flagName :: val
  flagEnvVar :: val

record cliContext =
  cli_String :: "string \<Rightarrow> string"
  cli_StringSlice :: "string \<Rightarrow> string list"
  cli_Bool :: "string \<Rightarrow> bool"
  cli_Int :: "string \<Rightarrow> int"
  cli_IsSet :: "string \<Rightarrow> bool"
  cli_Args :: "string list"
  cli_Flags :: "flag list"
  cli_AppName :: string
  cli_CommandName :: string

record configFile =
  Path :: string
  FileConfig :: "string \<rightharpoonup> string"

text \<open>
  What the loader reads from outside: the environment, the methods of \<^verbatim>\<open>File\<close>
  (\<^verbatim>\<open>Exists\<close>, \<^verbatim>\<open>AbsolutePath\<close>, \<^verbatim>\<open>Load\<close>, by path), \<^verbatim>\<open>os.Stat\<close> and the two
  normalizers of \<^verbatim>\<open>utils\<close>. None of them is defined in the loader; they are parameters.
\<close>

record world =
  environ :: "string \<rightharpoonup> string"
  fileExists :: "string \<Rightarrow> bool"
  fileAbsolutePath :: "string \<Rightarrow> string"
  fileLoad :: "string \<Rightarrow> error + (string \<rightharpoonup> string)"
  statOk :: "string \<Rightarrow> bool"
  NormalizeFilePath :: "string \<Rightarrow> error + string"
  NormalizeCommand :: "string \<Rightarrow> error + string"

text \<open>\<^verbatim>\<open>os.LookupEnv\<close> and \<^verbatim>\<open>os.Getenv\<close>; no variable has the empty name.\<close>

definition LookupEnv :: "world \<Rightarrow> string \<Rightarrow> string option" where
  "LookupEnv w name = (if name = [] then None else environ w name)"

definition Getenv :: "world \<Rightarrow> string \<Rightarrow> string" where
  "Getenv w name = (case LookupEnv w name of None \<Rightarrow> [] | Some v \<Rightarrow> v)"

record loader =
  CLI :: cliContext
  Config :: config
  DefaultConfigFilePaths :: "string list"
  File :: "configFile option"

subsection \<open>Explicitly set flags and empty values\<close>

text \<open>
  \<^verbatim>\<open>Loader.Errorf\<close>: the help hint is rendered with the names of the application and of
  the command (both are operands of \<^verbatim>\<open>%s\<close>, so they are copied as they are), appended to
  the format, and the whole is the format given to \<^verbatim>\<open>fmt.Errorf\<close>.
\<close>

definition Errorf :: "loader \<Rightarrow> string \<Rightarrow> val list \<Rightarrow> error" where
  "Errorf l format v =
     Formatted (format @ '' See: `'' @ cli_AppName (CLI l) @ '' '' @ cli_CommandName (CLI l)
                @ '' --help`'') v"

text \<open>
  The message of a \<open>Formatted\<close> error, for the formats made of plain text and of \<^verbatim>\<open>%s\<close>
  verbs that each have a string operand, with no operand left over. \<open>None\<close> stands for
  every other format: what \<^verbatim>\<open>fmt\<close> prints for those is not modelled.
\<close>

fun Sprintf :: "string \<Rightarrow> val list \<Rightarrow> string option" where
  "Sprintf [] v = (if v = [] then Some [] else None)"
| "Sprintf (c # cs) v =
     (if c \<noteq> CHR ''%'' then map_option ((#) c) (Sprintf cs v)
      else (case cs of
              [] \<Rightarrow> None
            | verb # rest \<Rightarrow>
                if verb = CHR ''s'' then
                  (case v of
                     VString operand # v' \<Rightarrow> map_option ((@) operand) (Sprintf rest v')
                   | _ \<Rightarrow> None)
                else None))"

text \<open>The loop of \<^verbatim>\<open>cliValueIsSet\<close> over the flags of the command: the first flag
  with the name and a non-empty string \<^verbatim>\<open>EnvVar\<close> decides.\<close>

fun flagEnvIsSet :: "world \<Rightarrow> string \<Rightarrow> flag list \<Rightarrow> bool" where
  "flagEnvIsSet w cliName [] = False"
| "flagEnvIsSet w cliName (flag # flags) =
     (if flagName flag = VString cliName \<and> flagEnvVar flag \<noteq> VString []
      then (case flagEnvVar flag of
              VString envVarStr \<Rightarrow> Getenv w (TrimSpace envVarStr) \<noteq> []
            | _ \<Rightarrow> flagEnvIsSet w cliName flags)
      else flagEnvIsSet w cliName flags)"

definition cliValueIsSet :: "world \<Rightarrow> loader \<Rightarrow> string \<Rightarrow> bool" where
  "cliValueIsSet w l cliName =
     (if cli_IsSet (CLI l) cliName then True
      else flagEnvIsSet w cliName (cli_Flags (CLI l)))"

text \<open>\<^verbatim>\<open>reflect.ValueOf(value).Len()\<close>; it panics on a value that has no length.\<close>

fun reflectLen :: "val \<Rightarrow> nat outcome" where
  "reflectLen (VStrings xs) = Returns (length xs)"
| "reflectLen (VString s) = Returns (length s)"
| "reflectLen (VOther k n len) = Returns len"
| "reflectLen VNil = Panics ''reflect: call of reflect.Value.Len on zero Value''"
| "reflectLen (VBool b) = Panics ''reflect: call of reflect.Value.Len on bool Value''"
| "reflectLen (VInt i) = Panics ''reflect: call of reflect.Value.Len on int Value''"

definition kindOrInvalid :: "config \<Rightarrow> string \<Rightarrow> kind" where
  "kindOrInvalid cfg fieldName =
     (case GetFieldKind cfg fieldName of None \<Rightarrow> KInvalid | Some k \<Rightarrow> k)"

text \<open>\<^verbatim>\<open>Kind.String\<close>, and the message of the panic of \<^verbatim>\<open>fieldValueIsEmpty\<close>.\<close>

fun kindName :: "kind \<Rightarrow> string" where
  "kindName KString = ''string''"
| "kindName KSlice = ''slice''"
| "kindName KBool = ''bool''"
| "kindName KInt = ''int''"
| "kindName KInvalid = ''invalid''"
| "kindName (KOther name) = name"

definition emptinessPanic :: "kind \<Rightarrow> string" where
  "emptinessPanic fieldKind = ''Can't determine empty-ness for field type '' @ kindName fieldKind"

definition fieldValueIsEmpty :: "loader \<Rightarrow> string \<Rightarrow> bool outcome" where
  "fieldValueIsEmpty l fieldName =
     (let value = GetField (Config l) fieldName;
          fieldKind = kindOrInvalid (Config l) fieldName
      in if fieldKind = KString then Returns (value = VString [])
         else if fieldKind = KSlice then
           (case reflectLen value of Panics m \<Rightarrow> Panics m | Returns n \<Rightarrow> Returns (n = 0))
         else if fieldKind = KBool then Returns (value = VBool False)
         else if fieldKind = KInt then Returns (value = VInt 0)
         else Panics (emptinessPanic fieldKind))"

subsection \<open>Resolving one field: \<^verbatim>\<open>setFieldValueFromCLI\<close>\<close>

text \<open>The branch for a binding name of the form \<^verbatim>\<open>arg:N\<close> (lines 196 to 219), from the
  submatch \<open>argNum\<close>: the positional argument, else the variable of the \<^verbatim>\<open>env\<close> tag.\<close>

definition positionalValue :: "world \<Rightarrow> loader \<Rightarrow> string \<Rightarrow> string \<Rightarrow> error + val" where
  "positionalValue w l fieldName argNum =
     (case Atoi argNum of
        (argIndex, Some err) \<Rightarrow> Inl (FailedToConvert err)
      | (argIndex, None) \<Rightarrow>
          (let value = (if int (length (cli_Args (CLI l))) > argIndex
                        then VString (cli_Args (CLI l) ! nat argIndex) else VNil)
           in if value = VNil then
                (case GetFieldTag (Config l) fieldName ''env'' of
                   None \<Rightarrow> Inr value
                 | Some envName \<Rightarrow>
                     (case LookupEnv w envName of
                        Some envValue \<Rightarrow> Inr (VString envValue)
                      | None \<Rightarrow> Inr value))
              else Inr value))"

text \<open>The value of the configuration file, converted to the kind of the field (lines
  226 to 241); \<open>VNil\<close> when there is no file or the file has no such key.\<close>

definition configFileValue :: "loader \<Rightarrow> string \<Rightarrow> kind \<Rightarrow> error + val" where
  "configFileValue l cliName fieldKind =
     (case File l of
        None \<Rightarrow> Inr VNil
      | Some f \<Rightarrow>
          (case FileConfig f cliName of
             None \<Rightarrow> Inr VNil
           | Some s \<Rightarrow>
               if fieldKind = KString then Inr (VString s)
               else if fieldKind = KSlice then Inr (VStrings (Split s CHR '',''))
               else if fieldKind = KBool then Inr (VBool (fst (ParseBool s)))
               else if fieldKind = KInt then Inr (VInt (fst (Atoi s)))
               else Inl (UnableToConvert fieldKind)))"

text \<open>The value of the command context, by the kind of the field (lines 246 to 256).\<close>

definition contextValue :: "loader \<Rightarrow> string \<Rightarrow> kind \<Rightarrow> error + val" where
  "contextValue l cliName fieldKind =
     (if fieldKind = KString then Inr (VString (cli_String (CLI l) cliName))
      else if fieldKind = KSlice then Inr (VStrings (cli_StringSlice (CLI l) cliName))
      else if fieldKind = KBool then Inr (VBool (cli_Bool (CLI l) cliName))
      else if fieldKind = KInt then Inr (VInt (cli_Int (CLI l) cliName))
      else Inl (UnableToHandle fieldKind))"

text \<open>The local variable \<^verbatim>\<open>value\<close> at line 260.\<close>

definition resolveValue :: "world \<Rightarrow> loader \<Rightarrow> string \<Rightarrow> string \<Rightarrow> kind \<Rightarrow> error + val" where
  "resolveValue w l fieldName cliName fieldKind =
     (case argCliNameRegexp cliName of
        Some argNum \<Rightarrow> positionalValue w l fieldName argNum
      | None \<Rightarrow>
          (case configFileValue l cliName fieldKind of
             Inl e \<Rightarrow> Inl e
           | Inr value \<Rightarrow>
               if value = VNil \<or> cliValueIsSet w l cliName
               then contextValue l cliName fieldKind
               else Inr value))"

definition setFieldValueFromCLI :: "world \<Rightarrow> loader \<Rightarrow> string \<Rightarrow> string \<Rightarrow> error + loader" where
  "setFieldValueFromCLI w l fieldName cliName =
     (case GetFieldKind (Config l) fieldName of
        None \<Rightarrow> Inl (FailedToGetType fieldName)
      | Some fieldKind \<Rightarrow>
          (case resolveValue w l fieldName cliName fieldKind of
             Inl e \<Rightarrow> Inl e
           | Inr value \<Rightarrow>
               if value \<noteq> VNil then
                 (case SetField (Config l) fieldName value of
                    Inl e \<Rightarrow> Inl (CouldNotSet value fieldName e)
                  | Inr cfg \<Rightarrow> Inr (l\<lparr>Config := cfg\<rparr>))
               else Inr l))"

subsection \<open>Validation and normalization\<close>

text \<open>The loop of \<^verbatim>\<open>validateField\<close> over the rules; \<open>None\<close> is the nil error.\<close>

fun validateRules ::
  "world \<Rightarrow> loader \<Rightarrow> string \<Rightarrow> string \<Rightarrow> string list \<Rightarrow> error option outcome" where
  "validateRules w l fieldName label [] = Returns None"
| "validateRules w l fieldName label (rule # rules) =
     (if rule = ''required'' then
        (case fieldValueIsEmpty l fieldName of
           Panics m \<Rightarrow> Panics m
         | Returns isEmpty \<Rightarrow>
             if isEmpty then Returns (Some (Errorf l ''Missing %s.'' [VString label]))
             else validateRules w l fieldName label rules)
      else if rule = ''file-exists'' then
        (case GetField (Config l) fieldName of
           VString valueAsString \<Rightarrow>
             if \<not> statOk w valueAsString
             then Returns (Some (CouldNotFind label (VString valueAsString)))
             else validateRules w l fieldName label rules
         | _ \<Rightarrow> validateRules w l fieldName label rules)
      else Returns (Some (UnknownRule rule)))"

definition validateField ::
  "world \<Rightarrow> loader \<Rightarrow> string \<Rightarrow> string \<Rightarrow> string \<Rightarrow> error option outcome" where
  "validateField w l fieldName label validationRules =
     validateRules w l fieldName label (Split validationRules CHR '','')"

text \<open>The two loops of the \<^verbatim>\<open>list\<close> normalization, appending to \<^verbatim>\<open>normalizedSlice\<close>.\<close>

fun appendTokens :: "string list \<Rightarrow> string list \<Rightarrow> string list" where
  "appendTokens normalizedSlice [] = normalizedSlice"
| "appendTokens normalizedSlice (normalized # tokens) =
     (if normalized = [] then appendTokens normalizedSlice tokens
      else appendTokens (normalizedSlice @ [normalized]) tokens)"

fun normalizeSlice :: "string list \<Rightarrow> string list \<Rightarrow> string list" where
  "normalizeSlice normalizedSlice [] = normalizedSlice"
| "normalizeSlice normalizedSlice (v # valueAsSlice) =
     normalizeSlice (appendTokens normalizedSlice (Split v CHR '','')) valueAsSlice"

definition setNormalized :: "loader \<Rightarrow> string \<Rightarrow> val \<Rightarrow> error + loader" where
  "setNormalized l fieldName v =
     (case SetField (Config l) fieldName v of
        Inl e \<Rightarrow> Inl (SetFieldError e)
      | Inr cfg \<Rightarrow> Inr (l\<lparr>Config := cfg\<rparr>))"

definition normalizeField :: "world \<Rightarrow> loader \<Rightarrow> string \<Rightarrow> string \<Rightarrow> error + loader" where
  "normalizeField w l fieldName normalization =
     (let value = GetField (Config l) fieldName;
          fieldKind = kindOrInvalid (Config l) fieldName
      in if normalization = ''filepath'' then
           (if fieldKind \<noteq> KString then Inl (OnlyStringFields ''filepath'')
            else (case value of
                    VString valueAsString \<Rightarrow>
                      (case NormalizeFilePath w valueAsString of
                         Inl e \<Rightarrow> Inl e
                       | Inr normalizedPath \<Rightarrow> setNormalized l fieldName (VString normalizedPath))
                  | _ \<Rightarrow> Inr l))
         else if normalization = ''commandpath'' then
           (if fieldKind \<noteq> KString then Inl (OnlyStringFields ''commandpath'')
            else (case value of
                    VString valueAsString \<Rightarrow>
                      (case NormalizeCommand w valueAsString of
                         Inl e \<Rightarrow> Inl e
                       | Inr normalizedCommandPath \<Rightarrow>
                           setNormalized l fieldName (VString normalizedCommandPath))
                  | _ \<Rightarrow> Inr l))
         else if normalization = ''list'' then
           (if fieldKind \<noteq> KSlice then Inl OnlySliceFields
            else (case value of
                    VStrings valueAsSlice \<Rightarrow>
                      setNormalized l fieldName (VStrings (normalizeSlice [] valueAsSlice))
                  | _ \<Rightarrow> Inr l))
         else Inl (UnknownNormalization normalization))"

subsection \<open>\<^verbatim>\<open>Load\<close>\<close>

text \<open>
  The result of \<^verbatim>\<open>Load\<close> and of each part of its loop body: the loader as the part
  leaves it, the warnings so far and the error (\<open>None\<close> to go on), or a panic.
\<close>

type_synonym loaded = "(loader \<times> string list \<times> error option) outcome"

definition andThen :: "loaded \<Rightarrow> (loader \<Rightarrow> string list \<Rightarrow> loaded) \<Rightarrow> loaded" where
  "andThen r k =
     (case r of
        Panics m \<Rightarrow> Panics m
      | Returns (l, warnings, Some e) \<Rightarrow> Returns (l, warnings, Some e)
      | Returns (l, warnings, None) \<Rightarrow> k l warnings)"

definition renamedWarning :: "string \<Rightarrow> string \<Rightarrow> string" where
  "renamedWarning cliName renamedFieldCliName =
     ''The config option `'' @ cliName @ ''` has been renamed to `'' @ renamedFieldCliName
     @ ''`. Please update your configuration.''"

definition deprecatedWarning :: "string \<Rightarrow> string \<Rightarrow> string" where
  "deprecatedWarning cliName deprecationError =
     ''The config option `'' @ cliName @ ''` has been deprecated: '' @ deprecationError"

text \<open>Lines 96 to 113: the value from the command line, then the normalization.\<close>

definition resolveStep :: "world \<Rightarrow> string \<Rightarrow> string \<Rightarrow> loader \<Rightarrow> string list \<Rightarrow> loaded" where
  "resolveStep w fieldName cliName l warnings =
     (if cliName \<noteq> [] then
        (case setFieldValueFromCLI w l fieldName cliName of
           Inl e \<Rightarrow> Returns (l, warnings, Some e)
         | Inr l' \<Rightarrow> Returns (l', warnings, None))
      else Returns (l, warnings, None))"

definition normalizeStep :: "world \<Rightarrow> string \<Rightarrow> loader \<Rightarrow> string list \<Rightarrow> loaded" where
  "normalizeStep w fieldName l warnings =
     (let normalization = tagOf (Config l) fieldName ''normalize''
      in if normalization \<noteq> [] then
           (case normalizeField w l fieldName normalization of
              Inl e \<Rightarrow> Returns (l, warnings, Some e)
            | Inr l' \<Rightarrow> Returns (l', warnings, None))
         else Returns (l, warnings, None))"

text \<open>Lines 116 to 143: a field renamed to another one.\<close>

definition renameStep :: "string \<Rightarrow> string \<Rightarrow> loader \<Rightarrow> string list \<Rightarrow> loaded" where
  "renameStep fieldName cliName l warnings =
     (let renamedToFieldName = tagOf (Config l) fieldName ''deprecated-and-renamed-to''
      in if renamedToFieldName \<noteq> [] then
           (case fieldValueIsEmpty l fieldName of
              Panics m \<Rightarrow> Panics m
            | Returns isEmpty \<Rightarrow>
                if \<not> isEmpty then
                  (let renamedFieldCliName = tagOf (Config l) renamedToFieldName ''cli'';
                       warnings' = (if renamedFieldCliName \<noteq> []
                                    then warnings @ [renamedWarning cliName renamedFieldCliName]
                                    else warnings);
                       value = GetField (Config l) fieldName
                   in case fieldValueIsEmpty l renamedToFieldName of
                        Panics m \<Rightarrow> Panics m
                      | Returns renamedEmpty \<Rightarrow>
                          if \<not> renamedEmpty then
                            Returns (l, warnings',
                              Some (RenameConflict cliName value renamedFieldCliName
                                      (GetField (Config l) renamedToFieldName)))
                          else if value \<noteq> VNil then
                            (case SetField (Config l) renamedToFieldName value of
                               Inl e \<Rightarrow>
                                 Returns (l, warnings', Some (CouldNotSet value renamedToFieldName e))
                             | Inr cfg \<Rightarrow> Returns (l\<lparr>Config := cfg\<rparr>, warnings', None))
                          else Returns (l, warnings', None))
                else Returns (l, warnings, None))
         else Returns (l, warnings, None))"

text \<open>Lines 146 to 154: a deprecated field.\<close>

definition deprecatedStep :: "string \<Rightarrow> string \<Rightarrow> loader \<Rightarrow> string list \<Rightarrow> loaded" where
  "deprecatedStep fieldName cliName l warnings =
     (let deprecationError = tagOf (Config l) fieldName ''deprecated''
      in if deprecationError \<noteq> [] then
           (case fieldValueIsEmpty l fieldName of
              Panics m \<Rightarrow> Panics m
            | Returns isEmpty \<Rightarrow>
                if \<not> isEmpty
                then Returns (l, warnings @ [deprecatedWarning cliName deprecationError], None)
                else Returns (l, warnings, None))
         else Returns (l, warnings, None))"

text \<open>Lines 157 to 178: the label of the field and its validation.\<close>

definition fieldLabel :: "config \<Rightarrow> string \<Rightarrow> string \<Rightarrow> string" where
  "fieldLabel cfg fieldName cliName =
     (let label = tagOf cfg fieldName ''label''
      in if label = [] then (if cliName \<noteq> [] then cliName else fieldName) else label)"

definition validateStep :: "world \<Rightarrow> string \<Rightarrow> string \<Rightarrow> loader \<Rightarrow> string list \<Rightarrow> loaded" where
  "validateStep w fieldName cliName l warnings =
     (let validationRules = tagOf (Config l) fieldName ''validate''
      in if validationRules \<noteq> [] then
           (case validateField w l fieldName (fieldLabel (Config l) fieldName cliName)
                   validationRules of
              Panics m \<Rightarrow> Panics m
            | Returns (Some e) \<Rightarrow> Returns (l, warnings, Some e)
            | Returns None \<Rightarrow> Returns (l, warnings, None))
         else Returns (l, warnings, None))"

text \<open>The body of the loop over the fields, and the loop.\<close>

definition loadField :: "world \<Rightarrow> string \<Rightarrow> loader \<Rightarrow> string list \<Rightarrow> loaded" where
  "loadField w fieldName l warnings =
     (let cliName = tagOf (Config l) fieldName ''cli''
      in andThen (resolveStep w fieldName cliName l warnings) (\<lambda>l1 w1.
         andThen (normalizeStep w fieldName l1 w1) (\<lambda>l2 w2.
         andThen (renameStep fieldName cliName l2 w2) (\<lambda>l3 w3.
         andThen (deprecatedStep fieldName cliName l3 w3) (\<lambda>l4 w4.
         validateStep w fieldName cliName l4 w4)))))"

fun loadFields :: "world \<Rightarrow> string list \<Rightarrow> loader \<Rightarrow> string list \<Rightarrow> loaded" where
  "loadFields w [] l warnings = Returns (l, warnings, None)"
| "loadFields w (fieldName # fieldNames) l warnings =
     andThen (loadField w fieldName l warnings) (loadFields w fieldNames)"

text \<open>Lines 54 to 76: the configuration file to use. The loop over the default paths
  stops at the first one that exists.\<close>

fun scanDefaults :: "world \<Rightarrow> string list \<Rightarrow> configFile option \<Rightarrow> configFile option" where
  "scanDefaults w [] found = found"
| "scanDefaults w (path # paths) found =
     (if fileExists w path then Some \<lparr>Path = path, FileConfig = Map.empty\<rparr>
      else scanDefaults w paths found)"

definition selectFile :: "world \<Rightarrow> loader \<Rightarrow> error + loader" where
  "selectFile w l =
     (if cli_String (CLI l) ''config'' \<noteq> [] then
        (let path = cli_String (CLI l) ''config''
         in if fileExists w path
            then Inr (l\<lparr>File := Some \<lparr>Path = path, FileConfig = Map.empty\<rparr>\<rparr>)
            else Inl (ConfigFileNotFound (fileAbsolutePath w path)))
      else if length (DefaultConfigFilePaths l) > 0 then
        Inr (l\<lparr>File := scanDefaults w (DefaultConfigFilePaths l) (File l)\<rparr>)
      else Inr l)"

text \<open>Lines 79 to 84: the selected file is loaded.\<close>

definition loadFile :: "world \<Rightarrow> loader \<Rightarrow> error + loader" where
  "loadFile w l =
     (case File l of
        None \<Rightarrow> Inr l
      | Some f \<Rightarrow>
          (case fileLoad w (Path f) of
             Inl e \<Rightarrow> Inl e
           | Inr parsed \<Rightarrow> Inr (l\<lparr>File := Some (f\<lparr>FileConfig := parsed\<rparr>)\<rparr>)))"

definition Load :: "world \<Rightarrow> loader \<Rightarrow> loaded" where
  "Load w l =
     (case selectFile w l of
        Inl e \<Rightarrow> Returns (l, [], Some e)
      | Inr l1 \<Rightarrow>
          (case loadFile w l1 of
             Inl e \<Rightarrow> Returns (l1, [], Some e)
           | Inr l2 \<Rightarrow> loadFields w (reflectFields (Config l2)) l2 []))"

subsection \<open>Notation for the results\<close>

text \<open>The loader with one field of the configuration assigned.\<close>

definition setValue :: "loader \<Rightarrow> string \<Rightarrow> val \<Rightarrow> loader" where
  "setValue l fieldName v = l\<lparr>Config := (Config l)\<lparr>Values := (Values (Config l))(fieldName := v)\<rparr>\<rparr>"

subsection \<open>The words of the specification\<close>

text \<open>
  The definitions of this part are not taken from the loader. They say, independently of
  it, what the specification means by a number in base 10, by a list joined with a
  separator, and by a binding that is explicitly set.
\<close>

text \<open>The numeral of a natural number in base 10, without leading zeros.\<close>

definition digitChar :: "nat \<Rightarrow> char" where
  "digitChar d = ''0123456789'' ! d"

fun decimal :: "nat \<Rightarrow> string" where
  "decimal n = (if n < 10 then [digitChar n] else decimal (n div 10) @ [digitChar (n mod 10)])"

declare decimal.simps [simp del]

text \<open>\<^verbatim>\<open>strings.Join\<close> with a separator of one byte.\<close>

fun Join :: "string list \<Rightarrow> char \<Rightarrow> string" where
  "Join [] sep = []"
| "Join [t] sep = t"
| "Join (t # u # ts) sep = t @ sep # Join (u # ts) sep"

text \<open>
  The environment variables that the flags named \<open>cliName\<close> declare (a non-empty string
  in \<^verbatim>\<open>EnvVar\<close>), in the order of the flags. The binding is explicitly set when the flag
  was given on the command line, or when the first of these variables, its name trimmed,
  is set to a non-empty value.
\<close>

definition declaredEnvVars :: "flag list \<Rightarrow> string \<Rightarrow> string list" where
  "declaredEnvVars flags cliName =
     concat (map (\<lambda>flag. case flagEnvVar flag of
                             VString e \<Rightarrow> if flagName flag = VString cliName \<and> e \<noteq> [] then [e] else []
                           | _ \<Rightarrow> [])
                 flags)"

definition explicitlySet :: "world \<Rightarrow> cliContext \<Rightarrow> string \<Rightarrow> bool" where
  "explicitlySet w c cliName =
     (cli_IsSet c cliName \<or>
      (case declaredEnvVars (cli_Flags c) cliName of
         [] \<Rightarrow> False
       | e # es \<Rightarrow>
           TrimSpace e \<noteq> [] \<and>
           (case environ w (TrimSpace e) of None \<Rightarrow> False | Some v \<Rightarrow> v \<noteq> [])))"

subsection \<open>Example configurations\<close>

definition exTagsField :: field where
  "exTagsField = \<lparr>f_name = ''Tags'', f_type = TStrings,
                   f_tags = [(''cli'', ''tags''), (''normalize'', ''list'')]\<rparr>"

definition exContext :: cliContext where
  "exContext =
     \<lparr>cli_String = (\<lambda>n. if n = ''foo'' then ''baz'' else []),
      cli_StringSlice = (\<lambda>n. []),
      cli_Bool = (\<lambda>n. False),
      cli_Int = (\<lambda>n. 0),
      cli_IsSet = (\<lambda>n. False),
      cli_Args = [''value1''],
      cli_Flags = [],
      cli_AppName = ''agent'',
      cli_CommandName = ''start''\<rparr>"

definition exWorld :: world where
  "exWorld =
     \<lparr>environ = [''FOO'' \<mapsto> ''x''],
      fileExists = (\<lambda>p. p = ''/etc/agent.cfg''),
      fileAbsolutePath = (\<lambda>p. p),
      fileLoad = (\<lambda>p. Inr [''foo'' \<mapsto> ''bar'']),
      statOk = (\<lambda>p. False),
      NormalizeFilePath = Inr,
      NormalizeCommand = Inr\<rparr>"

definition exTagsLoader :: loader where
  "exTagsLoader =
     \<lparr>CLI = exContext,
      Config = \<lparr>Fields = [exTagsField], Values = (\<lambda>n. VStrings [''a,b'', [], ''c''])\<rparr>,
      DefaultConfigFilePaths = [],
      File = None\<rparr>"

definition exPortLoader :: loader where
  "exPortLoader =
     \<lparr>CLI = exContext,
      Config = \<lparr>Fields = [\<lparr>f_name = ''Port'', f_type = TInt,
                           f_tags = [(''validate'', ''file-exists'')]\<rparr>],
                Values = (\<lambda>n. VInt 8080)\<rparr>,
      DefaultConfigFilePaths = [],
      File = None\<rparr>"

definition exArgField :: field where
  "exArgField = \<lparr>f_name = ''Arg'', f_type = TString,
                  f_tags = [(''cli'', ''arg:0''), (''env'', ''FOO'')]\<rparr>"

definition exArgLoader :: "string list \<Rightarrow> loader" where
  "exArgLoader args =
     \<lparr>CLI = exContext\<lparr>cli_Args := args\<rparr>,
      Config = \<lparr>Fields = [exArgField], Values = (\<lambda>n. VString [])\<rparr>,
      DefaultConfigFilePaths = [],
      File = None\<rparr>"

definition exFooField :: field where
  "exFooField = \<lparr>f_name = ''Foo'', f_type = TString, f_tags = [(''cli'', ''foo'')]\<rparr>"

definition exFooFile :: configFile where
  "exFooFile = \<lparr>Path = ''/etc/agent.cfg'', FileConfig = [''foo'' \<mapsto> ''bar'']\<rparr>"

definition exFooLoader :: "bool \<Rightarrow> flag list \<Rightarrow> loader" where
  "exFooLoader explicit flags =
     \<lparr>CLI = exContext\<lparr>cli_IsSet := (\<lambda>n. explicit \<and> n = ''foo''), cli_Flags := flags\<rparr>,
      Config = \<lparr>Fields = [exFooField], Values = (\<lambda>n. VString [])\<rparr>,
      DefaultConfigFilePaths = [],
      File = Some exFooFile\<rparr>"

definition exFlag :: "string \<Rightarrow> string \<Rightarrow> flag" where
  "exFlag name envVar = \<lparr>flagName = VString name, flagEnvVar = VString envVar\<rparr>"

definition exKindsLoader :: "string \<Rightarrow> loader" where
  "exKindsLoader fileValue =
     \<lparr>CLI = exContext,
      Config = \<lparr>Fields = [\<lparr>f_name = ''Name'', f_type = TString, f_tags = [(''cli'', ''key'')]\<rparr>,
                          \<lparr>f_name = ''Labels'', f_type = TStrings, f_tags = [(''cli'', ''key'')]\<rparr>,
                          \<lparr>f_name = ''Debug'', f_type = TBool, f_tags = [(''cli'', ''key'')]\<rparr>,
                          \<lparr>f_name = ''Port'', f_type = TInt, f_tags = [(''cli'', ''key'')]\<rparr>,
                          \<lparr>f_name = ''Ratio'', f_type = TOther (KOther ''float64'') ''float64'',
                           f_tags = [(''cli'', ''key'')]\<rparr>],
                Values = (\<lambda>n. VNil)\<rparr>,
      DefaultConfigFilePaths = [],
      File = Some \<lparr>Path = ''/etc/agent.cfg'', FileConfig = [''key'' \<mapsto> fileValue]\<rparr>\<rparr>"

definition exPathsLoader :: "string \<Rightarrow> string list \<Rightarrow> loader" where
  "exPathsLoader explicitPath defaults =
     \<lparr>CLI = exContext\<lparr>cli_String := (\<lambda>n. if n = ''config'' then explicitPath else [])\<rparr>,
      Config = \<lparr>Fields = [], Values = (\<lambda>n. VNil)\<rparr>,
      DefaultConfigFilePaths = defaults,
      File = None\<rparr>"

definition exArgNLoader :: "string \<Rightarrow> string list \<Rightarrow> loader" where
  "exArgNLoader cliName args =
     \<lparr>CLI = exContext\<lparr>cli_Args := args\<rparr>,
      Config = \<lparr>Fields = [\<lparr>f_name = ''Arg'', f_type = TString,
                           f_tags = [(''cli'', cliName), (''env'', ''FOO'')]\<rparr>],
                Values = (\<lambda>n. VString [])\<rparr>,
      DefaultConfigFilePaths = [],
      File = None\<rparr>"

definition exTokenLoader :: "string \<Rightarrow> string \<Rightarrow> loader" where
  "exTokenLoader labelTag token =
     \<lparr>CLI = exContext,
      Config = \<lparr>Fields = [\<lparr>f_name = ''Token'', f_type = TString,
                           f_tags = [(''cli'', ''token''), (''label'', labelTag),
                                     (''validate'', ''required'')]\<rparr>],
                Values = (\<lambda>n. VString token)\<rparr>,
      DefaultConfigFilePaths = [],
      File = None\<rparr>"

definition exSecretLoader :: loader where
  "exSecretLoader =
     \<lparr>CLI = exContext,
      Config = \<lparr>Fields = [\<lparr>f_name = ''Token'', f_type = TOther KString ''Secret'',
                           f_tags = [(''validate'', ''required'')]\<rparr>],
                Values = (\<lambda>n. VOther KString ''Secret'' 0)\<rparr>,
      DefaultConfigFilePaths = [],
      File = None\<rparr>"

definition exPidLoader :: loader where
  "exPidLoader =
     \<lparr>CLI = exContext,
      Config = \<lparr>Fields = [\<lparr>f_name = ''PidFile'', f_type = TString,
                           f_tags = [(''validate'', ''file-exists,required'')]\<rparr>],
                Values = (\<lambda>n. VString [])\<rparr>,
      DefaultConfigFilePaths = [],
      File = None\<rparr>"

definition exRatioLoader :: "(string \<times> string) list \<Rightarrow> loader" where
  "exRatioLoader tags =
     \<lparr>CLI = exContext,
      Config = \<lparr>Fields = [\<lparr>f_name = ''Ratio'', f_type = TOther (KOther ''float64'') ''float64'',
                           f_tags = tags\<rparr>],
                Values = (\<lambda>n. VOther (KOther ''float64'') ''float64'' 0)\<rparr>,
      DefaultConfigFilePaths = [],
      File = None\<rparr>"

definition exOldField :: field where
  "exOldField = \<lparr>f_name = ''Old'', f_type = TInt,
                  f_tags = [(''cli'', ''old''), (''deprecated-and-renamed-to'', ''New'')]\<rparr>"

definition exNewField :: "gotype \<Rightarrow> (string \<times> string) list \<Rightarrow> field" where
  "exNewField newType newTags = \<lparr>f_name = ''New'', f_type = newType, f_tags = newTags\<rparr>"

definition exValues :: "val \<Rightarrow> string \<Rightarrow> val" where
  "exValues newZero = (\<lambda>n. if n = ''New'' then newZero else VInt 0)"

definition exRenameLoader ::
  "bool \<Rightarrow> gotype \<Rightarrow> (string \<times> string) list \<Rightarrow> int \<Rightarrow> int \<Rightarrow> (string \<Rightarrow> val) \<Rightarrow> loader" where
  "exRenameLoader oldFirst newType newTags old new vals =
     \<lparr>CLI = exContext\<lparr>cli_Int := (\<lambda>n. if n = ''old'' then old else if n = ''new'' then new else 0)\<rparr>,
      Config = \<lparr>Fields = (if oldFirst then [exOldField, exNewField newType newTags]
                          else [exNewField newType newTags, exOldField]),
                Values = vals\<rparr>,
      DefaultConfigFilePaths = [],
      File = None\<rparr>"

section \<open>Auxiliary facts\<close>

lemma Split_not_Nil: "Split s c \<noteq> []"
  by (induction s) (auto split: list.splits)

lemma Split_no_sep: "t \<in> set (Split s c) \<Longrightarrow> c \<notin> set t"
  by (induction s arbitrary: t) (auto split: list.splits if_splits)

lemma concat_Split: "concat (Split s c) = filter (\<lambda>x. x \<noteq> c) s"
  by (induction s) (auto split: list.splits)

lemma appendTokens_filter: "appendTokens acc ts = acc @ filter (\<lambda>t. t \<noteq> []) ts"
  by (induction ts arbitrary: acc) auto

lemma normalizeSlice_concat:
  "normalizeSlice acc vs = acc @ concat (map (\<lambda>v. filter (\<lambda>t. t \<noteq> []) (Split v CHR '','')) vs)"
  by (induction vs arbitrary: acc) (auto simp: appendTokens_filter)

lemma concat_filter_nonempty: "concat (filter (\<lambda>t. t \<noteq> []) ts) = concat ts"
  by (induction ts) auto

lemma concat_tokens:
  "concat (concat (map (\<lambda>v. filter (\<lambda>t. t \<noteq> []) (Split v c)) vs)) = filter (\<lambda>x. x \<noteq> c) (concat vs)"
  by (induction vs) (auto simp: concat_filter_nonempty concat_Split)

lemma SetField_typed:
  "lookupField cfg name = Some fd \<Longrightarrow> typeOf v = Some (f_type fd) \<Longrightarrow>
   SetField cfg name v = Inr (cfg\<lparr>Values := (Values cfg)(name := v)\<rparr>)"
  by (simp add: SetField_def)

lemma GetField_found: "lookupField cfg name = Some fd \<Longrightarrow> GetField cfg name = Values cfg name"
  by (simp add: GetField_def)

lemma kindOrInvalid_found:
  "lookupField cfg name = Some fd \<Longrightarrow> kindOrInvalid cfg name = kindOf (f_type fd)"
  by (simp add: kindOrInvalid_def GetFieldKind_def)

lemma argCliNameRegexp_digits:
  "argCliNameRegexp s = Some d \<Longrightarrow> d \<noteq> [] \<and> list_all isDigit d"
proof (induction s)
  case Nil
  then show ?case by simp
next
  case (Cons c cs)
  show ?case
  proof (cases "take 4 (c # cs) = ''arg:'' \<and> takeWhile isDigit (drop 4 (c # cs)) \<noteq> []")
    case True
    with Cons.prems have d: "d = takeWhile isDigit (drop 4 (c # cs))"
      by simp
    have "list_all isDigit (takeWhile isDigit (drop 4 (c # cs)))"
      unfolding list_all_iff by (auto dest: set_takeWhileD)
    with True d show ?thesis by simp
  next
    case False
    with Cons.prems have "argCliNameRegexp cs = Some d"
      by (simp split: if_splits)
    then show ?thesis by (rule Cons.IH)
  qed
qed

lemma digitsValue_nonneg_aux:
  "0 \<le> n \<Longrightarrow> list_all isDigit s \<Longrightarrow> 0 \<le> foldl (\<lambda>n c. n * 10 + (of_char c - 48)) (n::int) s"
proof (induction s arbitrary: n)
  case Nil
  then show ?case by simp
next
  case (Cons c s)
  from Cons.prems have "isDigit c" by simp
  then have "(0::int) \<le> of_char c - 48"
    by (auto simp: isDigit_def)
  with Cons.prems have "0 \<le> n * 10 + (of_char c - 48)" by simp
  with Cons.prems Cons.IH show ?case by simp
qed

lemma digitsValue_nonneg: "list_all isDigit s \<Longrightarrow> 0 \<le> digitsValue s"
  unfolding digitsValue_def by (rule digitsValue_nonneg_aux) simp_all

lemma Atoi_digits:
  assumes "d \<noteq> []" and "list_all isDigit d"
  shows "Atoi d = (if digitsValue d > 2 ^ 63 - 1 then (2 ^ 63 - 1, Some ErrRange)
                   else (digitsValue d, None))"
proof -
  from assms obtain c cs where d: "d = c # cs" and c: "isDigit c"
    by (cases d) auto
  from c have "c \<noteq> CHR ''+''" and "c \<noteq> CHR ''-''"
    by (auto simp: isDigit_def)
  with assms d show ?thesis
    by (simp add: Atoi_def Let_def)
qed

lemma positionalValue_index:
  assumes "argCliNameRegexp cliName = Some argNum"
    and "digitsValue argNum < 2 ^ 63"
  shows "Atoi argNum = (digitsValue argNum, None) \<and> 0 \<le> digitsValue argNum"
proof -
  from assms(1) have d: "argNum \<noteq> []" "list_all isDigit argNum"
    by (auto dest: argCliNameRegexp_digits)
  with assms(2) show ?thesis
    by (simp add: Atoi_digits digitsValue_nonneg)
qed

lemma GetFieldKind_found:
  "lookupField cfg name = Some fd \<Longrightarrow> GetFieldKind cfg name = Some (kindOf (f_type fd))"
  by (simp add: GetFieldKind_def)

lemma GetFieldTag_found:
  "lookupField cfg name = Some fd \<Longrightarrow> GetFieldTag cfg name key = Some (tagGet (f_tags fd) key)"
  by (simp add: GetFieldTag_def)

lemma setField_string:
  "lookupField (Config l) fieldName = Some fd \<Longrightarrow> f_type fd = TString \<Longrightarrow>
   SetField (Config l) fieldName (VString s)
     = Inr ((Config l)\<lparr>Values := (Values (Config l))(fieldName := VString s)\<rparr>)"
  by (simp add: SetField_typed)

lemma typeOf_plain:
  "typeOf (VString s) = Some TString" "typeOf (VStrings xs) = Some TStrings"
  "typeOf (VBool b) = Some TBool" "typeOf (VInt i) = Some TInt"
  by simp_all

lemma ParseBool_value:
  "fst (ParseBool s) = (s \<in> set [''1'', ''t'', ''T'', ''TRUE'', ''true'', ''True''])"
  by (simp add: ParseBool_def)

text \<open>What \<^verbatim>\<open>cliValueIsSet\<close> computes: the flag was given on the command line, or the
  first flag of that name that declares an environment variable has it non-empty.\<close>

lemma cliValueIsSet_IsSet: "cli_IsSet (CLI l) cliName \<Longrightarrow> cliValueIsSet w l cliName"
  by (simp add: cliValueIsSet_def)

lemma flagEnvIsSet_first:
  assumes "\<forall>fl \<in> set pre. \<not> (flagName fl = VString cliName \<and> (\<exists>e. e \<noteq> [] \<and> flagEnvVar fl = VString e))"
    and "flagName flag = VString cliName"
    and "flagEnvVar flag = VString e"
    and "e \<noteq> []"
  shows "flagEnvIsSet w cliName (pre @ flag # post) = (Getenv w (TrimSpace e) \<noteq> [])"
  using assms
proof (induction pre)
  case Nil
  then show ?case by simp
next
  case (Cons fl pre)
  then show ?case
    by (cases "flagEnvVar fl") auto
qed

lemma flagEnvIsSet_none:
  "\<forall>fl \<in> set flags. \<not> (flagName fl = VString cliName \<and> (\<exists>e. e \<noteq> [] \<and> flagEnvVar fl = VString e))
   \<Longrightarrow> \<not> flagEnvIsSet w cliName flags"
proof (induction flags)
  case Nil
  then show ?case by simp
next
  case (Cons fl flags)
  then show ?case
    by (cases "flagEnvVar fl") auto
qed

lemma validateRules_append:
  "validateRules w l fieldName label (pre @ rules) =
     (case validateRules w l fieldName label pre of
        Returns None \<Rightarrow> validateRules w l fieldName label rules
      | r \<Rightarrow> r)"
proof (induction pre)
  case Nil
  then show ?case by simp
next
  case (Cons rule pre)
  show ?case
  proof (cases "fieldValueIsEmpty l fieldName")
    case (Returns b)
    with Cons show ?thesis
      by (cases "GetField (Config l) fieldName") simp_all
  next
    case (Panics m)
    with Cons show ?thesis
      by (cases "GetField (Config l) fieldName") simp_all
  qed
qed

lemma validateRules_not_empty:
  "fieldValueIsEmpty l fieldName = Returns False \<Longrightarrow>
   validateRules w l fieldName label rules \<noteq> Returns (Some (Formatted format v))"
proof (induction rules)
  case Nil
  then show ?case by simp
next
  case (Cons rule rules)
  then show ?case
    by (cases "GetField (Config l) fieldName") simp_all
qed

lemma fieldValueIsEmpty_plain:
  assumes "lookupField (Config l) fieldName = Some fd"
    and "f_type fd \<in> {TString, TStrings, TBool, TInt}"
    and "typeOf (Values (Config l) fieldName) = Some (f_type fd)"
  shows "fieldValueIsEmpty l fieldName
           = Returns (Values (Config l) fieldName \<in> {VString [], VStrings [], VBool False, VInt 0})"
proof -
  have k: "kindOrInvalid (Config l) fieldName = kindOf (f_type fd)"
    using assms(1) by (rule kindOrInvalid_found)
  have g: "GetField (Config l) fieldName = Values (Config l) fieldName"
    using assms(1) by (rule GetField_found)
  show ?thesis
    using assms(2,3)
    by (cases "Values (Config l) fieldName") (auto simp: fieldValueIsEmpty_def k g)
qed

lemma tagOf_found:
  "lookupField cfg name = Some fd \<Longrightarrow> tagOf cfg name key = tagGet (f_tags fd) key"
  by (simp add: tagOf_def GetFieldTag_def)

lemma scanDefaults_first:
  "\<forall>q \<in> set pre. \<not> fileExists w q \<Longrightarrow> fileExists w p \<Longrightarrow>
   scanDefaults w (pre @ p # post) found = Some \<lparr>Path = p, FileConfig = Map.empty\<rparr>"
  by (induction pre) simp_all

lemma scanDefaults_none:
  "\<forall>q \<in> set paths. \<not> fileExists w q \<Longrightarrow> scanDefaults w paths found = found"
  by (induction paths) simp_all

text \<open>The cases the results below leave aside: an index too long for an \<^verbatim>\<open>int\<close>, a field
  of another kind without a value in the file, a value of another type than the field,
  and the end of the loop at the first error.\<close>

lemma positional_index_out_of_range:
  assumes "argCliNameRegexp cliName = Some argNum"
    and "2 ^ 63 \<le> digitsValue argNum"
  shows "resolveValue w l fieldName cliName k = Inl (FailedToConvert ErrRange)"
proof -
  from assms(1) have "argNum \<noteq> []" "list_all isDigit argNum"
    by (auto dest: argCliNameRegexp_digits)
  with assms(2) have "Atoi argNum = (2 ^ 63 - 1, Some ErrRange)"
    by (simp add: Atoi_digits)
  with assms(1) show ?thesis
    by (simp add: resolveValue_def positionalValue_def)
qed

lemma unsupported_kind_without_file_value:
  assumes "argCliNameRegexp cliName = None"
    and "GetFieldKind (Config l) fieldName = Some k"
    and "k \<notin> {KString, KSlice, KBool, KInt}"
    and "configFileValue l cliName k = Inr VNil"
  shows "setFieldValueFromCLI w l fieldName cliName = Inl (UnableToHandle k)"
  using assms by (simp add: setFieldValueFromCLI_def resolveValue_def contextValue_def)

lemma assignment_type_mismatch:
  assumes "GetFieldKind (Config l) fieldName = Some k"
    and "resolveValue w l fieldName cliName k = Inr v"
    and "v \<noteq> VNil"
    and "lookupField (Config l) fieldName = Some fd"
    and "typeOf v \<noteq> Some (f_type fd)"
  shows "setFieldValueFromCLI w l fieldName cliName
           = Inl (CouldNotSet v fieldName ''Provided value type didn't match obj field type'')"
  using assms by (simp add: setFieldValueFromCLI_def SetField_def)

lemma loadFields_stops_at_error:
  "loadField w fieldName l warnings = Returns (l', warnings', Some e) \<Longrightarrow>
   loadFields w (fieldName # fieldNames) l warnings = Returns (l', warnings', Some e)"
  by (simp add: andThen_def)

lemma digitChar_digit:
  assumes "d < 10"
  shows "isDigit (digitChar d) \<and> of_char (digitChar d) - 48 = int d"
proof -
  from assms have "d \<in> {0, 1, 2, 3, 4, 5, 6, 7, 8, 9}"
    by auto
  then show ?thesis
    by (auto simp: digitChar_def isDigit_def)
qed

lemma digitsValue_snoc: "digitsValue (s @ [c]) = digitsValue s * 10 + (of_char c - 48)"
  by (simp add: digitsValue_def)

lemma decimal_digits: "decimal n \<noteq> [] \<and> list_all isDigit (decimal n) \<and> digitsValue (decimal n) = int n"
proof (induction n rule: decimal.induct)
  case (1 n)
  show ?case
  proof (cases "n < 10")
    case True
    then have "decimal n = [digitChar n]"
      by (simp add: decimal.simps)
    with True show ?thesis
      by (simp add: digitChar_digit digitsValue_def)
  next
    case False
    then have d: "decimal n = decimal (n div 10) @ [digitChar (n mod 10)]"
      by (simp add: decimal.simps)
    have m: "n mod 10 < 10" by simp
    from False 1 have ih: "list_all isDigit (decimal (n div 10))"
      "digitsValue (decimal (n div 10)) = int (n div 10)"
      by simp_all
    have "digitsValue (decimal n) = int (n div 10) * 10 + int (n mod 10)"
      unfolding d digitsValue_snoc using ih(2) digitChar_digit [OF m] by simp
    also have "\<dots> = int n"
      by (simp add: zdiv_int zmod_int)
    finally show ?thesis
      using ih(1) digitChar_digit [OF m] by (simp add: d)
  qed
qed

lemma Atoi_decimal:
  assumes "n < 2 ^ 63"
  shows "Atoi (decimal n) = (int n, None)"
proof -
  have d: "decimal n \<noteq> []" "list_all isDigit (decimal n)" "digitsValue (decimal n) = int n"
    using decimal_digits [of n] by simp_all
  from assms have "int n < 2 ^ 63"
    by (metis of_nat_less_iff of_nat_numeral of_nat_power)
  with d show ?thesis
    by (simp add: Atoi_digits)
qed

lemma Atoi_minus_decimal:
  assumes "n \<le> 2 ^ 63"
  shows "Atoi (CHR ''-'' # decimal n) = (- int n, None)"
proof -
  have d: "decimal n \<noteq> []" "list_all isDigit (decimal n)" "digitsValue (decimal n) = int n"
    using decimal_digits [of n] by simp_all
  from assms have "int n \<le> 2 ^ 63"
    by (metis of_nat_le_iff of_nat_numeral of_nat_power)
  with d show ?thesis
    by (simp add: Atoi_def Let_def)
qed

lemma Atoi_no_digit:
  assumes "set s \<inter> set ''0123456789'' = {}"
  shows "fst (Atoi s) = 0"
proof (cases s)
  case Nil
  then show ?thesis by (simp add: Atoi_def)
next
  case (Cons c cs)
  show ?thesis
  proof (cases cs)
    case Nil
    with Cons assms show ?thesis
      by (auto simp: Atoi_def Let_def isDigit_def)
  next
    case (Cons c' cs')
    with \<open>s = c # cs\<close> assms have "\<not> isDigit c'"
      by (auto simp: isDigit_def)
    with Cons \<open>s = c # cs\<close> assms show ?thesis
      by (auto simp: Atoi_def Let_def isDigit_def)
  qed
qed

lemma Join_Cons: "ts \<noteq> [] \<Longrightarrow> Join (t # ts) sep = t @ sep # Join ts sep"
  by (cases ts) simp_all

lemma Join_Split: "Join (Split s c) c = s"
proof (induction s)
  case Nil
  then show ?case by simp
next
  case (Cons x xs)
  show ?case
  proof (cases "x = c")
    case True
    with Cons show ?thesis
      by (simp add: Join_Cons Split_not_Nil)
  next
    case False
    obtain t ts where sp: "Split xs c = t # ts"
      using Split_not_Nil [of xs c] by (cases "Split xs c") auto
    with Cons have "Join (t # ts) c = xs" by simp
    then have "Join ((x # t) # ts) c = x # xs"
      by (cases ts) simp_all
    with False sp show ?thesis by simp
  qed
qed

lemma flagEnvIsSet_declared:
  "flagEnvIsSet w cliName flags =
     (case declaredEnvVars flags cliName of
        [] \<Rightarrow> False
      | e # es \<Rightarrow>
          TrimSpace e \<noteq> [] \<and>
          (case environ w (TrimSpace e) of None \<Rightarrow> False | Some v \<Rightarrow> v \<noteq> []))"
proof (induction flags)
  case Nil
  then show ?case by (simp add: declaredEnvVars_def)
next
  case (Cons flag flags)
  have rest: "declaredEnvVars (flag # flags) cliName =
                (case flagEnvVar flag of
                   VString e \<Rightarrow> if flagName flag = VString cliName \<and> e \<noteq> [] then [e] else []
                 | _ \<Rightarrow> []) @ declaredEnvVars flags cliName"
    by (simp add: declaredEnvVars_def)
  show ?case
    using Cons
    by (cases "flagEnvVar flag")
      (auto simp: rest Getenv_def LookupEnv_def split: option.splits)
qed

lemma cliValueIsSet_explicitlySet: "cliValueIsSet w l cliName = explicitlySet w (CLI l) cliName"
  by (simp add: cliValueIsSet_def explicitlySet_def flagEnvIsSet_declared)

lemma argCliNameRegexp_here:
  assumes "ds \<noteq> []" and "list_all isDigit ds" and "post = [] \<or> \<not> isDigit (hd post)"
  shows "argCliNameRegexp (''arg:'' @ ds @ post) = Some ds"
proof -
  have "takeWhile isDigit (ds @ post) = ds"
    using assms(2,3) by (cases post) (auto simp: list_all_iff takeWhile_append2 intro: takeWhile_eq_all_conv [THEN iffD2])
  with assms(1) show ?thesis by simp
qed

lemma argCliNameRegexp_prefix:
  assumes "CHR '':'' \<notin> set pre" and "ds \<noteq> []" and "list_all isDigit ds"
    and "post = [] \<or> \<not> isDigit (hd post)"
  shows "argCliNameRegexp (pre @ ''arg:'' @ ds @ post) = Some ds"
  using assms(1)
proof (induction pre)
  case Nil
  show ?case
    using argCliNameRegexp_here [OF assms(2,3,4)] by simp
next
  case (Cons c pre)
  define name where "name = pre @ ''arg:'' @ ds @ post"
  consider "pre = []" | p where "pre = [p]" | p q where "pre = [p, q]"
    | p q r rest where "pre = p # q # r # rest"
    by (cases pre; cases "tl pre"; cases "tl (tl pre)") auto
  then have "take 4 (c # name) \<noteq> ''arg:''"
    using Cons.prems unfolding name_def by cases auto
  then have "argCliNameRegexp (c # name) = argCliNameRegexp name"
    by auto
  moreover from Cons have "argCliNameRegexp name = Some ds"
    by (simp add: name_def)
  ultimately show ?case
    by (simp add: name_def)
qed

lemma positional_value_resolved:
  assumes "argCliNameRegexp cliName = Some argNum"
    and "digitsValue argNum < 2 ^ 63"
    and "lookupField (Config l) fieldName = Some fd"
  shows "resolveValue w l fieldName cliName k =
           Inr (if nat (digitsValue argNum) < length (cli_Args (CLI l))
                then VString (cli_Args (CLI l) ! nat (digitsValue argNum))
                else if tagGet (f_tags fd) ''env'' = [] then VNil
                else (case environ w (tagGet (f_tags fd) ''env'') of
                        Some envValue \<Rightarrow> VString envValue
                      | None \<Rightarrow> VNil))
         \<and> (f_type fd = TString \<longrightarrow>
              setFieldValueFromCLI w l fieldName cliName =
                Inr (if nat (digitsValue argNum) < length (cli_Args (CLI l))
                     then setValue l fieldName (VString (cli_Args (CLI l) ! nat (digitsValue argNum)))
                     else if tagGet (f_tags fd) ''env'' = [] then l
                     else (case environ w (tagGet (f_tags fd) ''env'') of
                             Some envValue \<Rightarrow> setValue l fieldName (VString envValue)
                           | None \<Rightarrow> l)))"
proof -
  from assms(1,2) have atoi: "Atoi argNum = (digitsValue argNum, None)"
    and pos: "0 \<le> digitsValue argNum"
    by (simp_all add: positionalValue_index)
  have tag: "GetFieldTag (Config l) fieldName ''env'' = Some (tagGet (f_tags fd) ''env'')"
    using assms(3) by (rule GetFieldTag_found)
  have len: "(digitsValue argNum < int (length (cli_Args (CLI l))))
               = (nat (digitsValue argNum) < length (cli_Args (CLI l)))"
    using pos by linarith
  have val: "resolveValue w l fieldName cliName k =
               Inr (if nat (digitsValue argNum) < length (cli_Args (CLI l))
                    then VString (cli_Args (CLI l) ! nat (digitsValue argNum))
                    else if tagGet (f_tags fd) ''env'' = [] then VNil
                    else (case environ w (tagGet (f_tags fd) ''env'') of
                            Some envValue \<Rightarrow> VString envValue | None \<Rightarrow> VNil))" for k
    using assms(1)
    by (simp add: resolveValue_def positionalValue_def atoi tag len LookupEnv_def
        split: option.splits)
  have assign: "setFieldValueFromCLI w l fieldName cliName =
                Inr (if nat (digitsValue argNum) < length (cli_Args (CLI l))
                     then setValue l fieldName (VString (cli_Args (CLI l) ! nat (digitsValue argNum)))
                     else if tagGet (f_tags fd) ''env'' = [] then l
                     else (case environ w (tagGet (f_tags fd) ''env'') of
                             Some envValue \<Rightarrow> setValue l fieldName (VString envValue)
                           | None \<Rightarrow> l))"
    if t: "f_type fd = TString"
  proof -
    have kind: "GetFieldKind (Config l) fieldName = Some KString"
      using assms(3) t by (simp add: GetFieldKind_found)
    show ?thesis
      using assms(3) t
      by (simp add: setFieldValueFromCLI_def kind val setField_string setValue_def
          split: option.splits)
  qed
  from val assign show ?thesis by blast
qed

lemma Load_without_file:
  assumes "cli_String (CLI l) ''config'' = []"
    and "DefaultConfigFilePaths l = []"
    and "File l = None"
  shows "Load w l = loadFields w (reflectFields (Config l)) l []"
  using assms by (simp add: Load_def selectFile_def loadFile_def)

lemma Sprintf_plain: "CHR ''%'' \<notin> set s \<Longrightarrow> Sprintf s [] = Some s"
  by (induction s) auto

lemma Sprintf_plain_append:
  "CHR ''%'' \<notin> set p \<Longrightarrow> Sprintf (p @ rest) v = map_option ((@) p) (Sprintf rest v)"
proof (induction p)
  case Nil
  show ?case by (cases "Sprintf rest v") simp_all
next
  case (Cons c p)
  then show ?case by (cases "Sprintf rest v") auto
qed

lemma Sprintf_missing:
  assumes "CHR ''%'' \<notin> set tail"
  shows "Sprintf (''Missing %s.'' @ tail) [VString label] = Some (''Missing '' @ label @ ''.'' @ tail)"
proof -
  have "Sprintf (''.'' @ tail) [] = Some (''.'' @ tail)"
    using assms by (intro Sprintf_plain) simp
  then have "Sprintf (''%s'' @ ''.'' @ tail) [VString label] = Some (label @ ''.'' @ tail)"
    by simp
  moreover have "Sprintf (''Missing '' @ (''%s'' @ ''.'' @ tail)) [VString label]
                   = map_option ((@) ''Missing '') (Sprintf (''%s'' @ ''.'' @ tail) [VString label])"
    by (rule Sprintf_plain_append) simp
  ultimately show ?thesis by simp
qed

lemma andThen_assoc:
  "andThen (andThen r k) k' = andThen r (\<lambda>l ws. andThen (k l ws) k')"
  by (cases r) (auto simp: andThen_def split: option.splits)

lemma andThen_Returns: "andThen (Returns (l, ws, None)) k = k l ws"
  by (simp add: andThen_def)

lemma loadFields_append:
  "loadFields w (pre @ rest) l ws = andThen (loadFields w pre l ws) (loadFields w rest)"
proof (induction pre arbitrary: l ws)
  case Nil
  show ?case by (simp add: andThen_def)
next
  case (Cons name pre)
  have "loadFields w ((name # pre) @ rest) l ws
          = andThen (loadField w name l ws) (\<lambda>l' ws'. loadFields w (pre @ rest) l' ws')"
    by simp
  also have "\<dots> = andThen (loadField w name l ws)
                      (\<lambda>l' ws'. andThen (loadFields w pre l' ws') (loadFields w rest))"
    by (simp add: Cons.IH)
  also have "\<dots> = andThen (andThen (loadField w name l ws) (loadFields w pre)) (loadFields w rest)"
    by (simp add: andThen_assoc)
  finally show ?case by simp
qed

lemma Load_at_field:
  assumes "selectFile w l0 = Inr ls"
    and "loadFile w ls = Inr l1"
    and "reflectFields (Config l1) = pre @ fieldName # post"
    and "loadFields w pre l1 [] = Returns (l, ws, None)"
  shows "Load w l0 = andThen (loadField w fieldName l ws) (loadFields w post)"
proof -
  have "Load w l0 = loadFields w (pre @ fieldName # post) l1 []"
    using assms(1,2,3) by (simp add: Load_def)
  also have "\<dots> = andThen (loadFields w pre l1 []) (loadFields w (fieldName # post))"
    by (rule loadFields_append)
  also have "\<dots> = loadFields w (fieldName # post) l ws"
    by (simp add: assms(4) andThen_Returns)
  finally show ?thesis by simp
qed

lemma argCliNameRegexp_no_colon: "CHR '':'' \<notin> set s \<Longrightarrow> argCliNameRegexp s = None"
proof (induction s)
  case Nil
  then show ?case by simp
next
  case (Cons c s)
  have "take 4 (c # s) \<noteq> ''arg:''"
  proof
    assume "take 4 (c # s) = ''arg:''"
    then have "CHR '':'' \<in> set (take 4 (c # s))" by simp
    then have "CHR '':'' \<in> set (c # s)" by (rule in_set_takeD)
    with Cons.prems show False by simp
  qed
  with Cons show ?case by auto
qed

lemma named_unsupported_kind_fails:
  assumes "argCliNameRegexp cliName = None"
    and "GetFieldKind (Config l) fieldName = Some k"
    and "k \<notin> {KString, KSlice, KBool, KInt}"
  shows "setFieldValueFromCLI w l fieldName cliName = Inl (UnableToConvert k)
         \<or> setFieldValueFromCLI w l fieldName cliName = Inl (UnableToHandle k)"
proof (cases "configFileValue l cliName k")
  case (Inl e)
  with assms(3) have "e = UnableToConvert k"
    by (auto simp: configFileValue_def split: option.splits if_splits)
  with Inl assms(1,2) show ?thesis
    by (simp add: setFieldValueFromCLI_def resolveValue_def)
next
  case (Inr v)
  with assms(3) have "v = VNil"
    by (auto simp: configFileValue_def split: option.splits if_splits)
  with Inr assms show ?thesis
    by (simp add: setFieldValueFromCLI_def resolveValue_def contextValue_def)
qed

lemma rename_at_turn:
  assumes "selectFile w l0 = Inr ls"
    and "loadFile w ls = Inr l1"
    and "reflectFields (Config l1) = pre @ fieldName # post"
    and "loadFields w pre l1 [] = Returns (l, ws, None)"
    and "cliName = tagOf (Config l) fieldName ''cli''"
    and "resolveStep w fieldName cliName l ws = Returns (lr, ws, None)"
    and "normalizeStep w fieldName lr ws = Returns (l2, ws, None)"
    and "new = tagOf (Config l2) fieldName ''deprecated-and-renamed-to''"
    and "new \<noteq> []"
    and "fieldValueIsEmpty l2 fieldName = Returns False"
  shows "let newCli = tagOf (Config l2) new ''cli'';
             value = GetField (Config l2) fieldName;
             notice = (if newCli \<noteq> [] then [renamedWarning cliName newCli] else [])
         in (fieldValueIsEmpty l2 new = Returns False \<longrightarrow>
               Load w l0 =
                 Returns (l2, ws @ notice,
                   Some (RenameConflict cliName value newCli (GetField (Config l2) new))))
          \<and> (fieldValueIsEmpty l2 new = Returns True
               \<and> (\<exists>fd. lookupField (Config l2) new = Some fd \<and> typeOf value = Some (f_type fd)) \<longrightarrow>
               Load w l0 =
                 andThen (andThen (deprecatedStep fieldName cliName (setValue l2 new value) (ws @ notice))
                            (validateStep w fieldName cliName))
                   (loadFields w post))
          \<and> (fieldValueIsEmpty l2 new = Returns True \<and> value \<noteq> VNil
               \<and> (\<exists>fd. lookupField (Config l2) new = Some fd \<and> typeOf value \<noteq> Some (f_type fd)) \<longrightarrow>
               Load w l0 =
                 Returns (l2, ws @ notice,
                   Some (CouldNotSet value new ''Provided value type didn't match obj field type'')))"
proof -
  define newCli where "newCli = tagOf (Config l2) new ''cli''"
  define v where "v = GetField (Config l2) fieldName"
  define notice where "notice = (if newCli \<noteq> [] then [renamedWarning cliName newCli] else [])"
  have at: "Load w l0 = andThen (loadField w fieldName l ws) (loadFields w post)"
    using assms(1,2,3,4) by (rule Load_at_field)
  have body: "loadField w fieldName l ws =
                andThen (renameStep fieldName cliName l2 ws) (\<lambda>l3 w3.
                andThen (deprecatedStep fieldName cliName l3 w3) (\<lambda>l4 w4.
                validateStep w fieldName cliName l4 w4))"
    by (simp add: loadField_def assms(5) [symmetric] assms(6,7) andThen_Returns)
  have conflict: "Load w l0 =
                 Returns (l2, ws @ notice,
                   Some (RenameConflict cliName v newCli (GetField (Config l2) new)))"
    if "fieldValueIsEmpty l2 new = Returns False"
  proof -
    have "renameStep fieldName cliName l2 ws =
            Returns (l2, ws @ notice,
              Some (RenameConflict cliName v newCli (GetField (Config l2) new)))"
      using assms(9,10) that
      by (simp add: renameStep_def assms(8) [symmetric] Let_def newCli_def v_def notice_def)
    then show ?thesis
      by (simp add: at body andThen_def)
  qed
  have copy: "Load w l0 =
                 andThen (andThen (deprecatedStep fieldName cliName (setValue l2 new v) (ws @ notice))
                            (validateStep w fieldName cliName))
                   (loadFields w post)"
    if e: "fieldValueIsEmpty l2 new = Returns True"
      and t: "\<exists>fd. lookupField (Config l2) new = Some fd \<and> typeOf v = Some (f_type fd)"
  proof -
    from t obtain fd where fd: "lookupField (Config l2) new = Some fd" "typeOf v = Some (f_type fd)"
      by blast
    then have nn: "GetField (Config l2) fieldName \<noteq> VNil"
      by (cases v) (simp_all add: v_def)
    from fd have set: "SetField (Config l2) new (GetField (Config l2) fieldName)
                         = Inr ((Config l2)\<lparr>Values := (Values (Config l2))(new := v)\<rparr>)"
      unfolding v_def [symmetric] by (rule SetField_typed)
    have "renameStep fieldName cliName l2 ws = Returns (setValue l2 new v, ws @ notice, None)"
      using assms(9,10) e nn
      by (simp add: renameStep_def assms(8) [symmetric] Let_def set setValue_def newCli_def notice_def)
    then show ?thesis
      by (simp add: at body andThen_Returns)
  qed
  have mismatch: "Load w l0 =
                    Returns (l2, ws @ notice,
                      Some (CouldNotSet v new ''Provided value type didn't match obj field type''))"
    if e: "fieldValueIsEmpty l2 new = Returns True"
      and nn: "v \<noteq> VNil"
      and t: "\<exists>fd. lookupField (Config l2) new = Some fd \<and> typeOf v \<noteq> Some (f_type fd)"
  proof -
    from t obtain fd where fd: "lookupField (Config l2) new = Some fd" "typeOf v \<noteq> Some (f_type fd)"
      by blast
    then have set: "SetField (Config l2) new (GetField (Config l2) fieldName)
                         = Inl ''Provided value type didn't match obj field type''"
      by (simp add: SetField_def v_def)
    have "renameStep fieldName cliName l2 ws =
            Returns (l2, ws @ notice,
              Some (CouldNotSet v new ''Provided value type didn't match obj field type''))"
      using assms(9,10) e nn
      by (simp add: renameStep_def assms(8) [symmetric] Let_def set newCli_def notice_def v_def)
    then show ?thesis
      by (simp add: at body andThen_def)
  qed
  from conflict copy mismatch show ?thesis
    unfolding Let_def newCli_def [symmetric] v_def [symmetric] notice_def [symmetric]
    by blast
qed

lemma SetField_Fields: "SetField cfg name v = Inr cfg' \<Longrightarrow> Fields cfg' = Fields cfg"
  by (auto simp: SetField_def split: option.splits if_splits)

lemma setFieldValueFromCLI_Fields:
  "setFieldValueFromCLI w l fieldName cliName = Inr l' \<Longrightarrow> Fields (Config l') = Fields (Config l)"
  by (auto simp: setFieldValueFromCLI_def split: option.splits sum.splits if_splits
      dest: SetField_Fields)

lemma setNormalized_Fields:
  "setNormalized l fieldName v = Inr l' \<Longrightarrow> Fields (Config l') = Fields (Config l)"
  by (auto simp: setNormalized_def split: sum.splits dest: SetField_Fields)

lemma normalizeField_Fields:
  "normalizeField w l fieldName normalization = Inr l' \<Longrightarrow> Fields (Config l') = Fields (Config l)"
  by (auto simp: normalizeField_def Let_def split: if_splits val.splits sum.splits
      dest: setNormalized_Fields)

lemma resolveStep_Fields:
  "resolveStep w fieldName cliName l ws = Returns (l', ws', e) \<Longrightarrow> Fields (Config l') = Fields (Config l)"
  by (auto simp: resolveStep_def split: if_splits sum.splits dest: setFieldValueFromCLI_Fields)

lemma normalizeStep_Fields:
  "normalizeStep w fieldName l ws = Returns (l', ws', e) \<Longrightarrow> Fields (Config l') = Fields (Config l)"
  by (auto simp: normalizeStep_def Let_def split: if_splits sum.splits dest: normalizeField_Fields)

lemma lookupField_Fields:
  "Fields (Config l') = Fields (Config l) \<Longrightarrow> lookupField (Config l') name = lookupField (Config l) name"
  by (simp add: lookupField_def)

section \<open>The properties of the loader\<close>

text \<open>
  Claim C1. A named field (its binding name is not of the form \<^verbatim>\<open>arg:N\<close>) of one of the
  four types the loader assigns, for which the configuration file has a value. When the
  binding is not explicitly set (the flag was not given on the command line, and the
  environment variable its flag declares, if any, is unset or empty), the field receives
  the value of the file, converted to its type. When the binding is explicitly set, the
  field receives the value of the command context.
\<close>

theorem file_value_unless_flag_set:
  assumes "argCliNameRegexp cliName = None"
    and "File l = Some f"
    and "FileConfig f cliName = Some s"
    and "lookupField (Config l) fieldName = Some fd"
    and "f_type fd \<in> {TString, TStrings, TBool, TInt}"
  shows "setFieldValueFromCLI w l fieldName cliName =
           Inr (setValue l fieldName
                 (if explicitlySet w (CLI l) cliName
                  then (case f_type fd of
                          TString \<Rightarrow> VString (cli_String (CLI l) cliName)
                        | TStrings \<Rightarrow> VStrings (cli_StringSlice (CLI l) cliName)
                        | TBool \<Rightarrow> VBool (cli_Bool (CLI l) cliName)
                        | TInt \<Rightarrow> VInt (cli_Int (CLI l) cliName)
                        | TOther k n \<Rightarrow> VNil)
                  else (case f_type fd of
                          TString \<Rightarrow> VString s
                        | TStrings \<Rightarrow> VStrings (Split s CHR '','')
                        | TBool \<Rightarrow> VBool (fst (ParseBool s))
                        | TInt \<Rightarrow> VInt (fst (Atoi s))
                        | TOther k n \<Rightarrow> VNil)))"
proof -
  have explicit: "cliValueIsSet w l cliName = explicitlySet w (CLI l) cliName"
    by (rule cliValueIsSet_explicitlySet)
  have kind: "GetFieldKind (Config l) fieldName = Some (kindOf (f_type fd))"
    using assms(4) by (rule GetFieldKind_found)
  have set: "\<And>v. typeOf v = Some (f_type fd) \<Longrightarrow>
               SetField (Config l) fieldName v
                 = Inr ((Config l)\<lparr>Values := (Values (Config l))(fieldName := v)\<rparr>)"
    using assms(4) by (simp add: SetField_typed)
  from assms(5) consider "f_type fd = TString" | "f_type fd = TStrings"
    | "f_type fd = TBool" | "f_type fd = TInt"
    by auto
  then show ?thesis
  proof cases
    case 1
    then show ?thesis
      using assms(1,2,3) set
      by (simp add: setFieldValueFromCLI_def kind resolveValue_def configFileValue_def
          contextValue_def setValue_def explicit)
  next
    case 2
    then show ?thesis
      using assms(1,2,3) set
      by (simp add: setFieldValueFromCLI_def kind resolveValue_def configFileValue_def
          contextValue_def setValue_def explicit)
  next
    case 3
    then show ?thesis
      using assms(1,2,3) set
      by (simp add: setFieldValueFromCLI_def kind resolveValue_def configFileValue_def
          contextValue_def setValue_def explicit)
  next
    case 4
    then show ?thesis
      using assms(1,2,3) set
      by (simp add: setFieldValueFromCLI_def kind resolveValue_def configFileValue_def
          contextValue_def setValue_def explicit)
  qed
qed

theorem file_value_unless_flag_set_witness:
  "setFieldValueFromCLI exWorld (exFooLoader False []) ''Foo'' ''foo''
     = Inr (setValue (exFooLoader False []) ''Foo'' (VString ''bar''))
   \<and> setFieldValueFromCLI exWorld (exFooLoader True []) ''Foo'' ''foo''
     = Inr (setValue (exFooLoader True []) ''Foo'' (VString ''baz''))
   \<and> setFieldValueFromCLI exWorld (exFooLoader False [exFlag ''foo'' ''FOO'']) ''Foo'' ''foo''
     = Inr (setValue (exFooLoader False [exFlag ''foo'' ''FOO'']) ''Foo'' (VString ''baz''))
   \<and> setFieldValueFromCLI exWorld (exFooLoader False [exFlag ''foo'' ''UNSET'']) ''Foo'' ''foo''
     = Inr (setValue (exFooLoader False [exFlag ''foo'' ''UNSET'']) ''Foo'' (VString ''bar''))
   \<and> setFieldValueFromCLI exWorld (exFooLoader False [exFlag ''other'' ''FOO'']) ''Foo'' ''foo''
     = Inr (setValue (exFooLoader False [exFlag ''other'' ''FOO'']) ''Foo'' (VString ''bar''))
   \<and> setFieldValueFromCLI exWorld
         (exFooLoader False [exFlag ''foo'' [CHR 0x20, CHR ''F'', CHR ''O'', CHR ''O'', CHR 0xC2, CHR 0xA0]])
         ''Foo'' ''foo''
     = Inr (setValue
              (exFooLoader False [exFlag ''foo'' [CHR 0x20, CHR ''F'', CHR ''O'', CHR ''O'', CHR 0xC2, CHR 0xA0]])
              ''Foo'' (VString ''baz''))"
proof -
  have m: "argCliNameRegexp ''foo'' = None"
    by simp
  have fl: "\<And>b fs. File (exFooLoader b fs) = Some exFooFile"
    by (simp add: exFooLoader_def)
  have fv: "FileConfig exFooFile ''foo'' = Some ''bar''"
    by (simp add: exFooFile_def)
  have f: "\<And>b fs. lookupField (Config (exFooLoader b fs)) ''Foo'' = Some exFooField"
    by (simp add: lookupField_def exFooLoader_def exFooField_def)
  have t: "f_type exFooField \<in> {TString, TStrings, TBool, TInt}"
    by (simp add: exFooField_def)
  have ty: "f_type exFooField = TString"
    by (simp add: exFooField_def)
  have c: "\<And>b fs. cli_String (CLI (exFooLoader b fs)) ''foo'' = ''baz''"
    by (simp add: exFooLoader_def exContext_def)
  have trim: "TrimSpace ''FOO'' = ''FOO''" "TrimSpace ''UNSET'' = ''UNSET''"
    "TrimSpace [CHR 0x20, CHR ''F'', CHR ''O'', CHR ''O'', CHR 0xC2, CHR 0xA0] = ''FOO''"
    by (simp_all add: TrimSpace_def dropRunes.simps leadingRune_def spaceRunes_def)
  have env: "environ exWorld ''FOO'' = Some ''x''" "environ exWorld ''UNSET'' = None"
    by (simp_all add: exWorld_def)
  have s: "\<And>b fs. explicitlySet exWorld (CLI (exFooLoader b fs)) ''foo''
             = (b \<or> (case declaredEnvVars fs ''foo'' of
                        [] \<Rightarrow> False
                      | e # es \<Rightarrow> TrimSpace e \<noteq> [] \<and>
                          (case environ exWorld (TrimSpace e) of None \<Rightarrow> False | Some v \<Rightarrow> v \<noteq> [])))"
    by (simp add: explicitlySet_def exFooLoader_def exContext_def)
  note inst = file_value_unless_flag_set [where w = exWorld, OF m fl fv f t]
  have one: "setFieldValueFromCLI exWorld (exFooLoader False []) ''Foo'' ''foo''
     = Inr (setValue (exFooLoader False []) ''Foo'' (VString ''bar''))"
    using inst [of False "[]"]
    by (simp add: s ty declaredEnvVars_def)
  have two: "setFieldValueFromCLI exWorld (exFooLoader True []) ''Foo'' ''foo''
     = Inr (setValue (exFooLoader True []) ''Foo'' (VString ''baz''))"
    using inst [of True "[]"]
    by (simp add: s c ty)
  have three: "setFieldValueFromCLI exWorld (exFooLoader False [exFlag ''foo'' ''FOO'']) ''Foo'' ''foo''
     = Inr (setValue (exFooLoader False [exFlag ''foo'' ''FOO'']) ''Foo'' (VString ''baz''))"
    using inst [of False "[exFlag ''foo'' ''FOO'']"]
    by (simp add: s c ty declaredEnvVars_def exFlag_def trim env)
  have four: "setFieldValueFromCLI exWorld (exFooLoader False [exFlag ''foo'' ''UNSET'']) ''Foo'' ''foo''
     = Inr (setValue (exFooLoader False [exFlag ''foo'' ''UNSET'']) ''Foo'' (VString ''bar''))"
    using inst [of False "[exFlag ''foo'' ''UNSET'']"]
    by (simp add: s c ty declaredEnvVars_def exFlag_def trim env)
  have five: "setFieldValueFromCLI exWorld (exFooLoader False [exFlag ''other'' ''FOO'']) ''Foo'' ''foo''
     = Inr (setValue (exFooLoader False [exFlag ''other'' ''FOO'']) ''Foo'' (VString ''bar''))"
    using inst [of False "[exFlag ''other'' ''FOO'']"]
    by (simp add: s c ty declaredEnvVars_def exFlag_def)
  have six: "setFieldValueFromCLI exWorld
         (exFooLoader False [exFlag ''foo'' [CHR 0x20, CHR ''F'', CHR ''O'', CHR ''O'', CHR 0xC2, CHR 0xA0]])
         ''Foo'' ''foo''
     = Inr (setValue
              (exFooLoader False [exFlag ''foo'' [CHR 0x20, CHR ''F'', CHR ''O'', CHR ''O'', CHR 0xC2, CHR 0xA0]])
              ''Foo'' (VString ''baz''))"
    using inst [of False "[exFlag ''foo'' [CHR 0x20, CHR ''F'', CHR ''O'', CHR ''O'', CHR 0xC2, CHR 0xA0]]"]
    by (simp add: s c ty declaredEnvVars_def exFlag_def trim env)
  from one two three four five six show ?thesis by blast
qed

text \<open>
  Claim C2, as the code has it. \<^verbatim>\<open>Load\<close> has come to a field renamed to another one (the
  fields before it have passed); both fields are of the four types the loader assigns, and
  the value of the renamed field, resolved and normalized, is not the zero of its type.
  The notice that asks to migrate is appended only when the replacement field has a
  binding name (a \<^verbatim>\<open>cli\<close> tag). When the value the replacement field holds at that moment
  is not zero either, \<^verbatim>\<open>Load\<close> returns the conflict error with both binding names and both
  values. When it is zero and the two fields have the same type, the value is copied into
  the replacement and \<^verbatim>\<open>Load\<close> goes on with the rest of the pass. When it is zero and the
  types differ, \<^verbatim>\<open>Load\<close> returns the error of the assignment.
\<close>

theorem rename_migration:
  assumes "selectFile w l0 = Inr ls"
    and "loadFile w ls = Inr l1"
    and "reflectFields (Config l1) = pre @ fieldName # post"
    and "loadFields w pre l1 [] = Returns (l, ws, None)"
    and "lookupField (Config l) fieldName = Some fd"
    and "lookupField (Config l) new = Some fd'"
    and "tagGet (f_tags fd) ''deprecated-and-renamed-to'' = new"
    and "new \<noteq> []"
    and "resolveStep w fieldName (tagGet (f_tags fd) ''cli'') l ws = Returns (lr, ws, None)"
    and "normalizeStep w fieldName lr ws = Returns (l2, ws, None)"
    and "f_type fd \<in> {TString, TStrings, TBool, TInt}"
    and "f_type fd' \<in> {TString, TStrings, TBool, TInt}"
    and "typeOf (Values (Config l2) fieldName) = Some (f_type fd)"
    and "typeOf (Values (Config l2) new) = Some (f_type fd')"
    and "Values (Config l2) fieldName \<notin> {VString [], VStrings [], VBool False, VInt 0}"
  shows "let cliName = tagGet (f_tags fd) ''cli'';
             newCli = tagGet (f_tags fd') ''cli'';
             value = Values (Config l2) fieldName;
             current = Values (Config l2) new;
             notice = (if newCli \<noteq> [] then [renamedWarning cliName newCli] else [])
         in (current \<notin> {VString [], VStrings [], VBool False, VInt 0} \<longrightarrow>
               Load w l0 = Returns (l2, ws @ notice, Some (RenameConflict cliName value newCli current)))
          \<and> (current \<in> {VString [], VStrings [], VBool False, VInt 0} \<and> f_type fd' = f_type fd \<longrightarrow>
               Load w l0 =
                 andThen (andThen (deprecatedStep fieldName cliName (setValue l2 new value) (ws @ notice))
                            (validateStep w fieldName cliName))
                   (loadFields w post))
          \<and> (current \<in> {VString [], VStrings [], VBool False, VInt 0} \<and> f_type fd' \<noteq> f_type fd \<longrightarrow>
               Load w l0 =
                 Returns (l2, ws @ notice,
                   Some (CouldNotSet value new ''Provided value type didn't match obj field type'')))"
proof -
  have same: "Fields (Config l2) = Fields (Config l)"
    using resolveStep_Fields [OF assms(9)] normalizeStep_Fields [OF assms(10)] by simp
  have f2: "lookupField (Config l2) fieldName = Some fd"
    and n2: "lookupField (Config l2) new = Some fd'"
    using assms(5,6) by (simp_all add: lookupField_Fields [OF same])
  have cli: "tagGet (f_tags fd) ''cli'' = tagOf (Config l) fieldName ''cli''"
    using assms(5) by (simp add: tagOf_found)
  have ren: "new = tagOf (Config l2) fieldName ''deprecated-and-renamed-to''"
    using f2 assms(7) by (simp add: tagOf_found)
  have newCli: "tagOf (Config l2) new ''cli'' = tagGet (f_tags fd') ''cli''"
    using n2 by (rule tagOf_found)
  have v: "GetField (Config l2) fieldName = Values (Config l2) fieldName"
    using f2 by (rule GetField_found)
  have c: "GetField (Config l2) new = Values (Config l2) new"
    using n2 by (rule GetField_found)
  have e_old: "fieldValueIsEmpty l2 fieldName = Returns False"
    using fieldValueIsEmpty_plain [OF f2 assms(11,13)] assms(15) by simp
  have e_new: "fieldValueIsEmpty l2 new
                 = Returns (Values (Config l2) new \<in> {VString [], VStrings [], VBool False, VInt 0})"
    using n2 assms(12,14) by (rule fieldValueIsEmpty_plain)
  have nn: "Values (Config l2) fieldName \<noteq> VNil"
    using assms(13) by (cases "Values (Config l2) fieldName") simp_all
  define notice where "notice = (if tagGet (f_tags fd') ''cli'' \<noteq> []
                       then [renamedWarning (tagGet (f_tags fd) ''cli'') (tagGet (f_tags fd') ''cli'')]
                       else [])"
  define Z where "Z = {VString [], VStrings [], VBool False, VInt 0}"
  note at = rename_at_turn [OF assms(1,2,3,4) cli assms(9,10) ren assms(8) e_old,
      unfolded Let_def newCli v c notice_def [symmetric]]
  have conflict: "Load w l0 =
                    Returns (l2, ws @ notice,
                      Some (RenameConflict (tagGet (f_tags fd) ''cli'') (Values (Config l2) fieldName)
                              (tagGet (f_tags fd') ''cli'') (Values (Config l2) new)))"
    if "Values (Config l2) new \<notin> Z"
  proof -
    from that have "fieldValueIsEmpty l2 new = Returns False"
      by (simp add: e_new Z_def)
    with at show ?thesis by blast
  qed
  have copy: "Load w l0 =
                 andThen (andThen (deprecatedStep fieldName (tagGet (f_tags fd) ''cli'')
                                     (setValue l2 new (Values (Config l2) fieldName)) (ws @ notice))
                            (validateStep w fieldName (tagGet (f_tags fd) ''cli'')))
                   (loadFields w post)"
    if "Values (Config l2) new \<in> Z" and "f_type fd' = f_type fd"
  proof -
    from that(1) have "fieldValueIsEmpty l2 new = Returns True"
      by (simp add: e_new Z_def)
    moreover from that(2) n2 assms(13)
    have "\<exists>d. lookupField (Config l2) new = Some d \<and> typeOf (Values (Config l2) fieldName) = Some (f_type d)"
      by simp
    ultimately show ?thesis using at by blast
  qed
  have mismatch: "Load w l0 =
                    Returns (l2, ws @ notice,
                      Some (CouldNotSet (Values (Config l2) fieldName) new
                              ''Provided value type didn't match obj field type''))"
    if "Values (Config l2) new \<in> Z" and "f_type fd' \<noteq> f_type fd"
  proof -
    from that(1) have "fieldValueIsEmpty l2 new = Returns True"
      by (simp add: e_new Z_def)
    moreover from that(2) n2 assms(13)
    have "\<exists>d. lookupField (Config l2) new = Some d \<and> typeOf (Values (Config l2) fieldName) \<noteq> Some (f_type d)"
      by simp
    ultimately show ?thesis using at nn by blast
  qed
  from conflict copy mismatch show ?thesis
    unfolding Let_def notice_def [symmetric] Z_def [symmetric] by blast
qed

lemma exRename_fields:
  "lookupField (Config (exRenameLoader b t ts old new vals)) ''Old'' = Some exOldField"
  "lookupField (Config (exRenameLoader b t ts old new vals)) ''New'' = Some (exNewField t ts)"
  "reflectFields (Config (exRenameLoader b t ts old new vals))
     = (if b then [''Old'', ''New''] else [''New'', ''Old''])"
  by (simp_all add: lookupField_def reflectFields_def exRenameLoader_def exOldField_def exNewField_def)

lemma exRename_start:
  "selectFile exWorld (exRenameLoader b t ts old new vals) = Inr (exRenameLoader b t ts old new vals)"
  "loadFile exWorld (exRenameLoader b t ts old new vals) = Inr (exRenameLoader b t ts old new vals)"
  by (simp_all add: selectFile_def loadFile_def exRenameLoader_def exContext_def)

lemma exRename_Load:
  "Load exWorld (exRenameLoader b t ts old new vals)
     = loadFields exWorld (if b then [''Old'', ''New''] else [''New'', ''Old''])
         (exRenameLoader b t ts old new vals) []"
  by (simp add: Load_def exRename_start exRename_fields(3))

lemma exRename_set: "setValue (exRenameLoader b t ts old new vals) name v
                       = exRenameLoader b t ts old new (vals(name := v))"
  by (simp add: setValue_def exRenameLoader_def)

lemma exRename_tags:
  "tagOf (Config (exRenameLoader b t ts old new vals)) ''Old'' key
     = tagGet [(''cli'', ''old''), (''deprecated-and-renamed-to'', ''New'')] key"
  "tagOf (Config (exRenameLoader b t ts old new vals)) ''New'' key = tagGet ts key"
  by (simp_all add: tagOf_found [OF exRename_fields(1)] tagOf_found [OF exRename_fields(2)]
      exOldField_def exNewField_def)

lemma exRename_values:
  "GetField (Config (exRenameLoader b t ts old new vals)) ''Old'' = vals ''Old''"
  "GetField (Config (exRenameLoader b t ts old new vals)) ''New'' = vals ''New''"
  by (simp_all add: GetField_found [OF exRename_fields(1)] GetField_found [OF exRename_fields(2)])
    (simp_all add: exRenameLoader_def)

lemma exRename_kinds:
  "GetFieldKind (Config (exRenameLoader b t ts old new vals)) ''Old'' = Some KInt"
  "GetFieldKind (Config (exRenameLoader b t ts old new vals)) ''New'' = Some (kindOf t)"
  "kindOrInvalid (Config (exRenameLoader b t ts old new vals)) ''Old'' = KInt"
  "kindOrInvalid (Config (exRenameLoader b t ts old new vals)) ''New'' = kindOf t"
  by (simp_all add: GetFieldKind_found [OF exRename_fields(1)] GetFieldKind_found [OF exRename_fields(2)]
      kindOrInvalid_found [OF exRename_fields(1)] kindOrInvalid_found [OF exRename_fields(2)]
      exOldField_def exNewField_def)

lemma exRename_empty:
  "fieldValueIsEmpty (exRenameLoader b t ts old new vals) ''Old'' = Returns (vals ''Old'' = VInt 0)"
  "fieldValueIsEmpty (exRenameLoader b TInt ts old new vals) ''New'' = Returns (vals ''New'' = VInt 0)"
  "fieldValueIsEmpty (exRenameLoader b TString ts old new vals) ''New'' = Returns (vals ''New'' = VString [])"
  by (simp_all add: fieldValueIsEmpty_def exRename_kinds exRename_values)

lemma exRename_context:
  "contextValue (exRenameLoader b t ts old new vals) ''old'' KInt = Inr (VInt old)"
  "contextValue (exRenameLoader b t ts old new vals) ''new'' KInt = Inr (VInt new)"
  "contextValue (exRenameLoader b t ts old new vals) ''new'' KString = Inr (VString [])"
  "configFileValue (exRenameLoader b t ts old new vals) name k = Inr VNil"
  by (simp_all add: contextValue_def configFileValue_def exRenameLoader_def exContext_def)

lemma exRename_resolve_old:
  "setFieldValueFromCLI exWorld (exRenameLoader b t ts old new vals) ''Old'' ''old''
     = Inr (exRenameLoader b t ts old new (vals(''Old'' := VInt old)))"
proof -
  have "resolveValue exWorld (exRenameLoader b t ts old new vals) ''Old'' ''old'' KInt = Inr (VInt old)"
    by (simp add: resolveValue_def exRename_context)
  moreover have "SetField (Config (exRenameLoader b t ts old new vals)) ''Old'' (VInt old)
                   = Inr ((Config (exRenameLoader b t ts old new vals))
                            \<lparr>Values := (Values (Config (exRenameLoader b t ts old new vals)))
                                         (''Old'' := VInt old)\<rparr>)"
    by (rule SetField_typed [OF exRename_fields(1)]) (simp add: exOldField_def)
  ultimately show ?thesis
    by (simp add: setFieldValueFromCLI_def exRename_kinds) (simp add: exRenameLoader_def)
qed

lemma exRename_resolve_new:
  "setFieldValueFromCLI exWorld (exRenameLoader b TInt ts old new vals) ''New'' ''new''
     = Inr (exRenameLoader b TInt ts old new (vals(''New'' := VInt new)))"
  "setFieldValueFromCLI exWorld (exRenameLoader b TString ts old new vals) ''New'' ''new''
     = Inr (exRenameLoader b TString ts old new (vals(''New'' := VString [])))"
proof -
  have "resolveValue exWorld (exRenameLoader b TInt ts old new vals) ''New'' ''new'' KInt = Inr (VInt new)"
    by (simp add: resolveValue_def exRename_context)
  moreover have "SetField (Config (exRenameLoader b TInt ts old new vals)) ''New'' (VInt new)
                   = Inr ((Config (exRenameLoader b TInt ts old new vals))
                            \<lparr>Values := (Values (Config (exRenameLoader b TInt ts old new vals)))
                                         (''New'' := VInt new)\<rparr>)"
    by (rule SetField_typed [OF exRename_fields(2)]) (simp add: exNewField_def)
  ultimately show "setFieldValueFromCLI exWorld (exRenameLoader b TInt ts old new vals) ''New'' ''new''
     = Inr (exRenameLoader b TInt ts old new (vals(''New'' := VInt new)))"
    by (simp add: setFieldValueFromCLI_def exRename_kinds) (simp add: exRenameLoader_def)
next
  have "resolveValue exWorld (exRenameLoader b TString ts old new vals) ''New'' ''new'' KString
          = Inr (VString [])"
    by (simp add: resolveValue_def exRename_context)
  moreover have "SetField (Config (exRenameLoader b TString ts old new vals)) ''New'' (VString [])
                   = Inr ((Config (exRenameLoader b TString ts old new vals))
                            \<lparr>Values := (Values (Config (exRenameLoader b TString ts old new vals)))
                                         (''New'' := VString [])\<rparr>)"
    by (rule SetField_typed [OF exRename_fields(2)]) (simp add: exNewField_def)
  ultimately show "setFieldValueFromCLI exWorld (exRenameLoader b TString ts old new vals) ''New'' ''new''
     = Inr (exRenameLoader b TString ts old new (vals(''New'' := VString [])))"
    by (simp add: setFieldValueFromCLI_def exRename_kinds) (simp add: exRenameLoader_def)
qed

lemma exRename_new_step:
  "loadField exWorld ''New'' (exRenameLoader b TInt [(''cli'', ''new'')] old new vals) ws
     = Returns (exRenameLoader b TInt [(''cli'', ''new'')] old new (vals(''New'' := VInt new)), ws, None)"
  "loadField exWorld ''New'' (exRenameLoader b TString [(''cli'', ''new'')] old new vals) ws
     = Returns (exRenameLoader b TString [(''cli'', ''new'')] old new (vals(''New'' := VString [])), ws, None)"
  "loadField exWorld ''New'' (exRenameLoader b t [] old new vals) ws
     = Returns (exRenameLoader b t [] old new vals, ws, None)"
  by (simp_all add: loadField_def exRename_tags resolveStep_def exRename_resolve_new normalizeStep_def
      renameStep_def deprecatedStep_def validateStep_def andThen_def)

lemma exRename_old_steps:
  "resolveStep exWorld ''Old'' ''old'' (exRenameLoader b t ts old new vals) ws
     = Returns (exRenameLoader b t ts old new (vals(''Old'' := VInt old)), ws, None)"
  "normalizeStep exWorld ''Old'' (exRenameLoader b t ts old new vals) ws
     = Returns (exRenameLoader b t ts old new vals, ws, None)"
  "deprecatedStep ''Old'' ''old'' (exRenameLoader b t ts old new vals) ws
     = Returns (exRenameLoader b t ts old new vals, ws, None)"
  "validateStep exWorld ''Old'' ''old'' (exRenameLoader b t ts old new vals) ws
     = Returns (exRenameLoader b t ts old new vals, ws, None)"
  by (simp_all add: resolveStep_def exRename_resolve_old normalizeStep_def deprecatedStep_def
      validateStep_def exRename_tags)

lemma exRename_old_step:
  "loadField exWorld ''Old'' (exRenameLoader b t ts old new vals) ws
     = andThen (renameStep ''Old'' ''old'' (exRenameLoader b t ts old new (vals(''Old'' := VInt old))) ws)
         (\<lambda>l3 w3. andThen (deprecatedStep ''Old'' ''old'' l3 w3) (validateStep exWorld ''Old'' ''old''))"
  by (simp add: loadField_def Let_def exRename_tags exRename_old_steps(1,2) andThen_Returns)

lemma exRename_assign:
  "SetField (Config (exRenameLoader b t ts old new vals)) ''New'' v
     = (if typeOf v = Some t
        then Inr (Config (exRenameLoader b t ts old new (vals(''New'' := v))))
        else Inl ''Provided value type didn't match obj field type'')"
  "(exRenameLoader b t ts old new vals)\<lparr>Config := Config (exRenameLoader b t ts old new vals')\<rparr>
     = exRenameLoader b t ts old new vals'"
  by (simp_all add: SetField_def exRename_fields(2) exNewField_def) (simp_all add: exRenameLoader_def)

lemma exRename_rename:
  assumes "vals ''Old'' = VInt 5"
    and "fieldValueIsEmpty (exRenameLoader b t ts old new vals) ''New'' = Returns True"
  shows "renameStep ''Old'' ''old'' (exRenameLoader b t ts old new vals) ws
           = (if t = TInt
              then Returns (exRenameLoader b t ts old new (vals(''New'' := VInt 5)),
                     ws @ (if tagGet ts ''cli'' \<noteq> [] then [renamedWarning ''old'' (tagGet ts ''cli'')] else []),
                     None)
              else Returns (exRenameLoader b t ts old new vals,
                     ws @ (if tagGet ts ''cli'' \<noteq> [] then [renamedWarning ''old'' (tagGet ts ''cli'')] else []),
                     Some (CouldNotSet (VInt 5) ''New'' ''Provided value type didn't match obj field type'')))"
  using assms
  by (auto simp: renameStep_def Let_def exRename_tags exRename_empty(1) exRename_values exRename_assign)

theorem rename_migration_witness:
  "Load exWorld (exRenameLoader False TInt [(''cli'', ''new'')] 5 6 (exValues (VInt 0)))
     = Returns (exRenameLoader False TInt [(''cli'', ''new'')] 5 6
                  ((exValues (VInt 0))(''New'' := VInt 6, ''Old'' := VInt 5)),
         [''The config option `old` has been renamed to `new`. Please update your configuration.''],
         Some (RenameConflict ''old'' (VInt 5) ''new'' (VInt 6)))
   \<and> Load exWorld (exRenameLoader False TInt [(''cli'', ''new'')] 5 0 (exValues (VInt 0)))
     = Returns (exRenameLoader False TInt [(''cli'', ''new'')] 5 0
                  ((exValues (VInt 0))(''New'' := VInt 0, ''Old'' := VInt 5, ''New'' := VInt 5)),
         [''The config option `old` has been renamed to `new`. Please update your configuration.''],
         None)
   \<and> Load exWorld (exRenameLoader False TString [(''cli'', ''new'')] 5 0 (exValues (VString [])))
     = Returns (exRenameLoader False TString [(''cli'', ''new'')] 5 0
                  ((exValues (VString []))(''New'' := VString [], ''Old'' := VInt 5)),
         [''The config option `old` has been renamed to `new`. Please update your configuration.''],
         Some (CouldNotSet (VInt 5) ''New'' ''Provided value type didn't match obj field type''))"
proof -
  let ?X = "\<lambda>new. exRenameLoader False TInt [(''cli'', ''new'')] 5 new"
  let ?S = "exRenameLoader False TString [(''cli'', ''new'')] 5 0"
  let ?v0 = "exValues (VInt 0)"
  let ?s0 = "exValues (VString [])"
  have fields: "\<And>t new vals. reflectFields (Config (exRenameLoader False t [(''cli'', ''new'')] 5 new vals))
                  = [''New''] @ ''Old'' # []"
    by (simp add: exRename_fields(3))
  have before: "\<And>new. loadFields exWorld [''New''] (?X new ?v0) []
                  = Returns (?X new (?v0(''New'' := VInt new)), [], None)"
    "loadFields exWorld [''New''] (?S ?s0) [] = Returns (?S (?s0(''New'' := VString [])), [], None)"
    by (simp_all add: exRename_new_step(1,2) andThen_def)
  have ren: "tagGet (f_tags exOldField) ''deprecated-and-renamed-to'' = ''New''"
    and cli: "tagGet (f_tags exOldField) ''cli'' = ''old''"
    and ty: "f_type exOldField \<in> {TString, TStrings, TBool, TInt}"
    by (simp_all add: exOldField_def)
  have ne: "''New'' \<noteq> []" by simp
  have tn: "f_type (exNewField TInt [(''cli'', ''new'')]) \<in> {TString, TStrings, TBool, TInt}"
    "f_type (exNewField TString [(''cli'', ''new'')]) \<in> {TString, TStrings, TBool, TInt}"
    by (simp_all add: exNewField_def)
  have vals: "\<And>b t ts old new vals name. Values (Config (exRenameLoader b t ts old new vals)) name = vals name"
    by (simp add: exRenameLoader_def)
  note r = exRename_old_steps(1) [where ws = "[]", folded cli]
  have one: "Load exWorld (?X 6 ?v0)
     = Returns (?X 6 (?v0(''New'' := VInt 6, ''Old'' := VInt 5)),
         [''The config option `old` has been renamed to `new`. Please update your configuration.''],
         Some (RenameConflict ''old'' (VInt 5) ''new'' (VInt 6)))"
    using rename_migration [OF exRename_start fields before(1) exRename_fields(1,2) ren ne r
        exRename_old_steps(2) ty tn(1), of 6]
    by (simp add: Let_def vals cli exOldField_def exNewField_def renamedWarning_def)
  have two: "Load exWorld (?X 0 ?v0)
     = Returns (?X 0 (?v0(''New'' := VInt 0, ''Old'' := VInt 5, ''New'' := VInt 5)),
         [''The config option `old` has been renamed to `new`. Please update your configuration.''],
         None)"
    using rename_migration [OF exRename_start fields before(1) exRename_fields(1,2) ren ne r
        exRename_old_steps(2) ty tn(1), of 0]
    by (simp add: Let_def vals cli exOldField_def exNewField_def renamedWarning_def
        exRename_set exRename_old_steps(3,4) andThen_def)
  have three: "Load exWorld (?S ?s0)
     = Returns (?S (?s0(''New'' := VString [], ''Old'' := VInt 5)),
         [''The config option `old` has been renamed to `new`. Please update your configuration.''],
         Some (CouldNotSet (VInt 5) ''New'' ''Provided value type didn't match obj field type''))"
    using rename_migration [OF exRename_start fields before(2) exRename_fields(1,2) ren ne r
        exRename_old_steps(2) ty tn(2)]
    by (simp add: Let_def vals cli exOldField_def exNewField_def renamedWarning_def)
  from one two three show ?thesis by blast
qed

text \<open>
  The claim C2 as stated fails on four configurations, all with the value 5 in the renamed
  field \<^verbatim>\<open>Old\<close>. The replacement \<^verbatim>\<open>New\<close> has no \<^verbatim>\<open>cli\<close> tag: the value is copied and no
  warning is returned. \<^verbatim>\<open>Old\<close> is declared before \<^verbatim>\<open>New\<close> and both flags are given (5
  and 6): no conflict is found, and \<^verbatim>\<open>New\<close> ends with 6. The same order with only \<^verbatim>\<open>Old\<close>
  given: the copy is overwritten by the default 0 of \<^verbatim>\<open>New\<close>. \<^verbatim>\<open>New\<close> is a string field:
  nothing is copied, and \<^verbatim>\<open>Load\<close> returns the error of the assignment.
\<close>

theorem rename_exceptions:
  "Load exWorld (exRenameLoader False TInt [] 5 0 (exValues (VInt 0)))
     = Returns (exRenameLoader False TInt [] 5 0
                  ((exValues (VInt 0))(''Old'' := VInt 5, ''New'' := VInt 5)),
         [], None)
   \<and> Load exWorld (exRenameLoader True TInt [(''cli'', ''new'')] 5 6 (exValues (VInt 0)))
     = Returns (exRenameLoader True TInt [(''cli'', ''new'')] 5 6
                  ((exValues (VInt 0))(''Old'' := VInt 5, ''New'' := VInt 6)),
         [''The config option `old` has been renamed to `new`. Please update your configuration.''],
         None)
   \<and> Load exWorld (exRenameLoader True TInt [(''cli'', ''new'')] 5 0 (exValues (VInt 0)))
     = Returns (exRenameLoader True TInt [(''cli'', ''new'')] 5 0
                  ((exValues (VInt 0))(''Old'' := VInt 5, ''New'' := VInt 0)),
         [''The config option `old` has been renamed to `new`. Please update your configuration.''],
         None)
   \<and> Load exWorld (exRenameLoader False TString [(''cli'', ''new'')] 5 0 (exValues (VString [])))
     = Returns (exRenameLoader False TString [(''cli'', ''new'')] 5 0
                  ((exValues (VString []))(''New'' := VString [], ''Old'' := VInt 5)),
         [''The config option `old` has been renamed to `new`. Please update your configuration.''],
         Some (CouldNotSet (VInt 5) ''New'' ''Provided value type didn't match obj field type''))"
proof -
  have e0: "\<And>b ts old new. fieldValueIsEmpty
              (exRenameLoader b TInt ts old new ((exValues (VInt 0))(''Old'' := VInt 5))) ''New''
              = Returns True"
    by (simp add: exRename_empty exValues_def)
  have e1: "\<And>b ts old new. fieldValueIsEmpty
              (exRenameLoader b TString ts old new
                 ((exValues (VString []))(''New'' := VString [], ''Old'' := VInt 5))) ''New''
              = Returns True"
    by (simp add: exRename_empty)
  have one: "Load exWorld (exRenameLoader False TInt [] 5 0 (exValues (VInt 0)))
     = Returns (exRenameLoader False TInt [] 5 0
                  ((exValues (VInt 0))(''Old'' := VInt 5, ''New'' := VInt 5)),
         [], None)"
    by (simp add: exRename_Load exRename_new_step(3) exRename_old_step exRename_rename e0
        exRename_old_steps(3,4) andThen_def)
  have two: "Load exWorld (exRenameLoader True TInt [(''cli'', ''new'')] 5 6 (exValues (VInt 0)))
     = Returns (exRenameLoader True TInt [(''cli'', ''new'')] 5 6
                  ((exValues (VInt 0))(''Old'' := VInt 5, ''New'' := VInt 6)),
         [''The config option `old` has been renamed to `new`. Please update your configuration.''],
         None)"
    by (simp add: exRename_Load exRename_new_step(1) exRename_old_step exRename_rename e0
        exRename_old_steps(3,4) andThen_def renamedWarning_def)
  have three: "Load exWorld (exRenameLoader True TInt [(''cli'', ''new'')] 5 0 (exValues (VInt 0)))
     = Returns (exRenameLoader True TInt [(''cli'', ''new'')] 5 0
                  ((exValues (VInt 0))(''Old'' := VInt 5, ''New'' := VInt 0)),
         [''The config option `old` has been renamed to `new`. Please update your configuration.''],
         None)"
    by (simp add: exRename_Load exRename_new_step(1) exRename_old_step exRename_rename e0
        exRename_old_steps(3,4) andThen_def renamedWarning_def)
  have four: "Load exWorld (exRenameLoader False TString [(''cli'', ''new'')] 5 0 (exValues (VString [])))
     = Returns (exRenameLoader False TString [(''cli'', ''new'')] 5 0
                  ((exValues (VString []))(''New'' := VString [], ''Old'' := VInt 5)),
         [''The config option `old` has been renamed to `new`. Please update your configuration.''],
         Some (CouldNotSet (VInt 5) ''New'' ''Provided value type didn't match obj field type''))"
    by (simp add: exRename_Load exRename_new_step(2) exRename_old_step exRename_rename e1
        andThen_def renamedWarning_def)
  from one two three four show ?thesis by blast
qed

text \<open>
  Claim C3. For a named field with a value \<open>s\<close> in the configuration file and a binding
  that is not explicitly set, the resolved value is \<open>s\<close> converted by the kind of the
  field. A string is \<open>s\<close> itself. A slice is \<open>s\<close> split at its commas: the tokens hold no
  comma and, joined with commas, give \<open>s\<close> back. A bool is true exactly for the six
  spellings of true that \<^verbatim>\<open>ParseBool\<close> reads. An int is the number read in base 10: \<open>n\<close>
  for the numeral of \<open>n\<close>, \<open>-n\<close> for the numeral behind a minus sign (within 64 bits), 0
  for a text without a digit. For a field of any other kind the resolution fails with
  the error \<^verbatim>\<open>Unable to convert string to type\<close>, explicitly set or not.
\<close>

theorem config_file_value_conversion:
  assumes "argCliNameRegexp cliName = None"
    and "File l = Some f"
    and "FileConfig f cliName = Some s"
    and "GetFieldKind (Config l) fieldName = Some k"
  shows "(\<not> explicitlySet w (CLI l) cliName \<longrightarrow>
            (k = KString \<longrightarrow> resolveValue w l fieldName cliName k = Inr (VString s))
          \<and> (k = KSlice \<longrightarrow>
                (\<exists>ts. resolveValue w l fieldName cliName k = Inr (VStrings ts)
                   \<and> ts \<noteq> [] \<and> Join ts CHR '','' = s \<and> (\<forall>t \<in> set ts. CHR '','' \<notin> set t)))
          \<and> (k = KBool \<longrightarrow>
                resolveValue w l fieldName cliName k =
                  Inr (VBool (s \<in> set [''1'', ''t'', ''T'', ''TRUE'', ''true'', ''True''])))
          \<and> (k = KInt \<longrightarrow>
                (\<exists>i. resolveValue w l fieldName cliName k = Inr (VInt i)
                   \<and> (\<forall>n. n < 2 ^ 63 \<and> s = decimal n \<longrightarrow> i = int n)
                   \<and> (\<forall>n. n \<le> 2 ^ 63 \<and> s = CHR ''-'' # decimal n \<longrightarrow> i = - int n)
                   \<and> (set s \<inter> set ''0123456789'' = {} \<longrightarrow> i = 0))))
         \<and> (k \<notin> {KString, KSlice, KBool, KInt} \<longrightarrow>
               setFieldValueFromCLI w l fieldName cliName = Inl (UnableToConvert k))"
proof -
  have res: "resolveValue w l fieldName cliName k = configFileValue l cliName k"
    if "\<not> explicitlySet w (CLI l) cliName"
    using assms(1,2,3) that
    by (cases k) (simp_all add: resolveValue_def configFileValue_def cliValueIsSet_explicitlySet)
  have str: "k = KString \<longrightarrow> configFileValue l cliName k = Inr (VString s)"
    using assms(2,3) by (simp add: configFileValue_def)
  have slice: "k = KSlice \<longrightarrow>
                (\<exists>ts. configFileValue l cliName k = Inr (VStrings ts)
                   \<and> ts \<noteq> [] \<and> Join ts CHR '','' = s \<and> (\<forall>t \<in> set ts. CHR '','' \<notin> set t))"
    using assms(2,3)
    by (auto simp: configFileValue_def Split_not_Nil Join_Split dest: Split_no_sep)
  have bool: "k = KBool \<longrightarrow>
                configFileValue l cliName k =
                  Inr (VBool (s \<in> set [''1'', ''t'', ''T'', ''TRUE'', ''true'', ''True'']))"
    using assms(2,3) by (simp add: configFileValue_def ParseBool_value)
  have num: "(\<forall>n. n < 2 ^ 63 \<and> s = decimal n \<longrightarrow> fst (Atoi s) = int n)
           \<and> (\<forall>n. n \<le> 2 ^ 63 \<and> s = CHR ''-'' # decimal n \<longrightarrow> fst (Atoi s) = - int n)
           \<and> (set s \<inter> set ''0123456789'' = {} \<longrightarrow> fst (Atoi s) = 0)"
    using Atoi_no_digit [of s] by (simp add: Atoi_decimal Atoi_minus_decimal)
  have int: "k = KInt \<longrightarrow>
                (\<exists>i. configFileValue l cliName k = Inr (VInt i)
                   \<and> (\<forall>n. n < 2 ^ 63 \<and> s = decimal n \<longrightarrow> i = int n)
                   \<and> (\<forall>n. n \<le> 2 ^ 63 \<and> s = CHR ''-'' # decimal n \<longrightarrow> i = - int n)
                   \<and> (set s \<inter> set ''0123456789'' = {} \<longrightarrow> i = 0))"
  proof
    assume "k = KInt"
    with assms(2,3) have "configFileValue l cliName k = Inr (VInt (fst (Atoi s)))"
      by (simp add: configFileValue_def)
    with num show "\<exists>i. configFileValue l cliName k = Inr (VInt i)
                   \<and> (\<forall>n. n < 2 ^ 63 \<and> s = decimal n \<longrightarrow> i = int n)
                   \<and> (\<forall>n. n \<le> 2 ^ 63 \<and> s = CHR ''-'' # decimal n \<longrightarrow> i = - int n)
                   \<and> (set s \<inter> set ''0123456789'' = {} \<longrightarrow> i = 0)"
      by blast
  qed
  have conv: "k \<notin> {KString, KSlice, KBool, KInt} \<longrightarrow>
                configFileValue l cliName k = Inl (UnableToConvert k)"
    using assms(2,3) by (simp add: configFileValue_def)
  have unsupported: "k \<notin> {KString, KSlice, KBool, KInt} \<longrightarrow>
               setFieldValueFromCLI w l fieldName cliName = Inl (UnableToConvert k)"
    using assms(1,4) conv by (simp add: setFieldValueFromCLI_def resolveValue_def)
  show ?thesis
  proof (cases "explicitlySet w (CLI l) cliName")
    case True
    with unsupported show ?thesis by simp
  next
    case False
    then have r: "resolveValue w l fieldName cliName k = configFileValue l cliName k"
      by (rule res)
    show ?thesis
      unfolding r using str slice bool int unsupported by blast
  qed
qed

theorem config_file_value_conversion_witness:
  "resolveValue exWorld (exKindsLoader ''a,,b'') ''Name'' ''key'' KString = Inr (VString ''a,,b'')
   \<and> resolveValue exWorld (exKindsLoader ''a,,b'') ''Labels'' ''key'' KSlice
       = Inr (VStrings [''a'', [], ''b''])
   \<and> resolveValue exWorld (exKindsLoader ''true'') ''Debug'' ''key'' KBool = Inr (VBool True)
   \<and> resolveValue exWorld (exKindsLoader ''yes'') ''Debug'' ''key'' KBool = Inr (VBool False)
   \<and> resolveValue exWorld (exKindsLoader ''8080'') ''Port'' ''key'' KInt = Inr (VInt 8080)
   \<and> resolveValue exWorld (exKindsLoader ''-12'') ''Port'' ''key'' KInt = Inr (VInt (- 12))
   \<and> resolveValue exWorld (exKindsLoader ''x'') ''Port'' ''key'' KInt = Inr (VInt 0)
   \<and> setFieldValueFromCLI exWorld (exKindsLoader ''0.5'') ''Ratio'' ''key''
       = Inl (UnableToConvert (KOther ''float64''))"
proof -
  let ?f = "\<lambda>v. \<lparr>Path = ''/etc/agent.cfg'', FileConfig = [''key'' \<mapsto> v]\<rparr>"
  have m: "argCliNameRegexp ''key'' = None" by simp
  have fl: "\<And>v. File (exKindsLoader v) = Some (?f v)"
    by (simp add: exKindsLoader_def)
  have fv: "\<And>v. FileConfig (?f v) ''key'' = Some v"
    by simp
  have k: "\<And>v. GetFieldKind (Config (exKindsLoader v)) ''Name'' = Some KString"
    "\<And>v. GetFieldKind (Config (exKindsLoader v)) ''Labels'' = Some KSlice"
    "\<And>v. GetFieldKind (Config (exKindsLoader v)) ''Debug'' = Some KBool"
    "\<And>v. GetFieldKind (Config (exKindsLoader v)) ''Port'' = Some KInt"
    "\<And>v. GetFieldKind (Config (exKindsLoader v)) ''Ratio'' = Some (KOther ''float64'')"
    by (simp_all add: GetFieldKind_def lookupField_def exKindsLoader_def)
  have e: "\<And>v. \<not> explicitlySet exWorld (CLI (exKindsLoader v)) ''key''"
    by (simp add: explicitlySet_def declaredEnvVars_def exKindsLoader_def exContext_def)
  have one: "resolveValue exWorld (exKindsLoader ''a,,b'') ''Name'' ''key'' KString = Inr (VString ''a,,b'')"
    using config_file_value_conversion [where w = exWorld, OF m fl fv k(1)] e by simp
  have two: "resolveValue exWorld (exKindsLoader ''a,,b'') ''Labels'' ''key'' KSlice
       = Inr (VStrings [''a'', [], ''b''])"
  proof -
    from config_file_value_conversion [where w = exWorld, OF m fl fv k(2), of "''a,,b''"] e
    obtain ts where r: "resolveValue exWorld (exKindsLoader ''a,,b'') ''Labels'' ''key'' KSlice
                          = Inr (VStrings ts)"
      by auto
    have "resolveValue exWorld (exKindsLoader ''a,,b'') ''Labels'' ''key'' KSlice
            = Inr (VStrings (Split ''a,,b'' CHR '',''))"
      using e by (simp add: resolveValue_def configFileValue_def fl cliValueIsSet_explicitlySet)
    with r show ?thesis by simp
  qed
  have three: "resolveValue exWorld (exKindsLoader ''true'') ''Debug'' ''key'' KBool = Inr (VBool True)"
    using config_file_value_conversion [where w = exWorld, OF m fl fv k(3), of "''true''"] e by simp
  have four: "resolveValue exWorld (exKindsLoader ''yes'') ''Debug'' ''key'' KBool = Inr (VBool False)"
    using config_file_value_conversion [where w = exWorld, OF m fl fv k(3), of "''yes''"] e by simp
  have d1: "decimal 8080 = ''8080''" and d2: "decimal 12 = ''12''"
    by (simp_all add: decimal.simps digitChar_def)
  have five: "resolveValue exWorld (exKindsLoader ''8080'') ''Port'' ''key'' KInt = Inr (VInt 8080)"
  proof -
    from config_file_value_conversion [where w = exWorld, OF m fl fv k(4), of "''8080''"] e
    obtain i where r: "resolveValue exWorld (exKindsLoader ''8080'') ''Port'' ''key'' KInt = Inr (VInt i)"
      and n: "\<forall>n. n < 2 ^ 63 \<and> ''8080'' = decimal n \<longrightarrow> i = int n"
      by auto
    from n [rule_format, of 8080] d1 have "i = 8080" by simp
    with r show ?thesis by simp
  qed
  have six: "resolveValue exWorld (exKindsLoader ''-12'') ''Port'' ''key'' KInt = Inr (VInt (- 12))"
  proof -
    from config_file_value_conversion [where w = exWorld, OF m fl fv k(4), of "''-12''"] e
    obtain i where r: "resolveValue exWorld (exKindsLoader ''-12'') ''Port'' ''key'' KInt = Inr (VInt i)"
      and n: "\<forall>n. n \<le> 2 ^ 63 \<and> ''-12'' = CHR ''-'' # decimal n \<longrightarrow> i = - int n"
      by auto
    from n [rule_format, of 12] d2 have "i = - 12" by simp
    with r show ?thesis by simp
  qed
  have seven: "resolveValue exWorld (exKindsLoader ''x'') ''Port'' ''key'' KInt = Inr (VInt 0)"
    using config_file_value_conversion [where w = exWorld, OF m fl fv k(4), of "''x''"] e by auto
  have eight: "setFieldValueFromCLI exWorld (exKindsLoader ''0.5'') ''Ratio'' ''key''
       = Inl (UnableToConvert (KOther ''float64''))"
    using config_file_value_conversion [where w = exWorld, OF m fl fv k(5), of "''0.5''"] by simp
  from one two three four five six seven eight show ?thesis by blast
qed

text \<open>
  Claim C4. With a path given by \<^verbatim>\<open>--config\<close> that does not exist, \<^verbatim>\<open>Load\<close> returns the
  error that names the absolute path, with no warning and the loader as it was. With no
  such path, the first default path that exists is selected: the selected file has that
  path, and it is the file \<^verbatim>\<open>Load\<close> loads before it goes on to the fields. When no
  default path exists (and the loader has no file yet), no file is selected and \<^verbatim>\<open>Load\<close>
  goes on to the fields without a file.
\<close>

theorem config_file_selection:
  "(cli_String (CLI l) ''config'' \<noteq> [] \<and> \<not> fileExists w (cli_String (CLI l) ''config'') \<longrightarrow>
      Load w l = Returns (l, [],
        Some (ConfigFileNotFound (fileAbsolutePath w (cli_String (CLI l) ''config'')))))
   \<and> (cli_String (CLI l) ''config'' = [] \<and> DefaultConfigFilePaths l = pre @ p # post
        \<and> (\<forall>q \<in> set pre. \<not> fileExists w q) \<and> fileExists w p \<longrightarrow>
      selectFile w l = Inr (l\<lparr>File := Some \<lparr>Path = p, FileConfig = Map.empty\<rparr>\<rparr>)
      \<and> Load w l = (case fileLoad w p of
                     Inl e \<Rightarrow> Returns (l\<lparr>File := Some \<lparr>Path = p, FileConfig = Map.empty\<rparr>\<rparr>, [], Some e)
                   | Inr parsed \<Rightarrow>
                       loadFields w (reflectFields (Config l))
                         (l\<lparr>File := Some \<lparr>Path = p, FileConfig = parsed\<rparr>\<rparr>) []))
   \<and> (cli_String (CLI l) ''config'' = [] \<and> File l = None
        \<and> (\<forall>q \<in> set (DefaultConfigFilePaths l). \<not> fileExists w q) \<longrightarrow>
      selectFile w l = Inr l \<and> Load w l = loadFields w (reflectFields (Config l)) l [])"
proof -
  have missing: "cli_String (CLI l) ''config'' \<noteq> [] \<and> \<not> fileExists w (cli_String (CLI l) ''config'') \<longrightarrow>
      Load w l = Returns (l, [],
        Some (ConfigFileNotFound (fileAbsolutePath w (cli_String (CLI l) ''config''))))"
    by (simp add: Load_def selectFile_def)
  have first: "cli_String (CLI l) ''config'' = [] \<and> DefaultConfigFilePaths l = pre @ p # post
        \<and> (\<forall>q \<in> set pre. \<not> fileExists w q) \<and> fileExists w p \<longrightarrow>
      selectFile w l = Inr (l\<lparr>File := Some \<lparr>Path = p, FileConfig = Map.empty\<rparr>\<rparr>)
      \<and> Load w l = (case fileLoad w p of
                     Inl e \<Rightarrow> Returns (l\<lparr>File := Some \<lparr>Path = p, FileConfig = Map.empty\<rparr>\<rparr>, [], Some e)
                   | Inr parsed \<Rightarrow>
                       loadFields w (reflectFields (Config l))
                         (l\<lparr>File := Some \<lparr>Path = p, FileConfig = parsed\<rparr>\<rparr>) [])"
    by (simp add: Load_def loadFile_def selectFile_def scanDefaults_first split: sum.splits)
  have none: "selectFile w l = Inr l \<and> Load w l = loadFields w (reflectFields (Config l)) l []"
    if h: "cli_String (CLI l) ''config'' = [] \<and> File l = None
        \<and> (\<forall>q \<in> set (DefaultConfigFilePaths l). \<not> fileExists w q)"
  proof -
    from h have "scanDefaults w (DefaultConfigFilePaths l) (File l) = File l"
      by (simp add: scanDefaults_none)
    with h have sel: "selectFile w l = Inr l"
      by (simp add: selectFile_def)
    from h have "loadFile w l = Inr l"
      by (simp add: loadFile_def)
    with sel show ?thesis
      by (simp add: Load_def)
  qed
  from missing first none show ?thesis by blast
qed

theorem config_file_selection_witness:
  "Load exWorld (exPathsLoader ''/missing/path'' [])
     = Returns (exPathsLoader ''/missing/path'' [], [], Some (ConfigFileNotFound ''/missing/path''))
   \<and> selectFile exWorld (exPathsLoader [] [''/a.cfg'', ''/etc/agent.cfg'', ''/b.cfg''])
     = Inr ((exPathsLoader [] [''/a.cfg'', ''/etc/agent.cfg'', ''/b.cfg''])
              \<lparr>File := Some \<lparr>Path = ''/etc/agent.cfg'', FileConfig = Map.empty\<rparr>\<rparr>)
   \<and> Load exWorld (exPathsLoader [] [''/a.cfg'', ''/etc/agent.cfg'', ''/b.cfg''])
     = Returns ((exPathsLoader [] [''/a.cfg'', ''/etc/agent.cfg'', ''/b.cfg''])
                  \<lparr>File := Some \<lparr>Path = ''/etc/agent.cfg'', FileConfig = [''foo'' \<mapsto> ''bar'']\<rparr>\<rparr>,
                [], None)
   \<and> Load exWorld (exPathsLoader [] [''/a.cfg'', ''/b.cfg''])
     = Returns (exPathsLoader [] [''/a.cfg'', ''/b.cfg''], [], None)"
proof -
  have c: "\<And>e d. cli_String (CLI (exPathsLoader e d)) ''config'' = e"
    by (simp add: exPathsLoader_def)
  have d: "\<And>e d. DefaultConfigFilePaths (exPathsLoader e d) = d"
    by (simp add: exPathsLoader_def)
  have fl: "\<And>e d. File (exPathsLoader e d) = None"
    by (simp add: exPathsLoader_def)
  have ex: "\<And>p. fileExists exWorld p = (p = ''/etc/agent.cfg'')"
    by (simp add: exWorld_def)
  have ab: "\<And>p. fileAbsolutePath exWorld p = p"
    by (simp add: exWorld_def)
  have fs: "\<And>e d. reflectFields (Config (exPathsLoader e d)) = []"
    by (simp add: reflectFields_def exPathsLoader_def)
  have one: "Load exWorld (exPathsLoader ''/missing/path'' [])
     = Returns (exPathsLoader ''/missing/path'' [], [], Some (ConfigFileNotFound ''/missing/path''))"
    using config_file_selection [where w = exWorld and l = "exPathsLoader ''/missing/path'' []"]
    by (simp add: c ex ab)
  have two: "selectFile exWorld (exPathsLoader [] [''/a.cfg'', ''/etc/agent.cfg'', ''/b.cfg''])
     = Inr ((exPathsLoader [] [''/a.cfg'', ''/etc/agent.cfg'', ''/b.cfg''])
              \<lparr>File := Some \<lparr>Path = ''/etc/agent.cfg'', FileConfig = Map.empty\<rparr>\<rparr>)"
    using config_file_selection [where w = exWorld
        and l = "exPathsLoader [] [''/a.cfg'', ''/etc/agent.cfg'', ''/b.cfg'']"
        and pre = "[''/a.cfg'']" and p = "''/etc/agent.cfg''" and post = "[''/b.cfg'']"]
    by (simp add: c d ex)
  have ld: "\<And>p. fileLoad exWorld p = Inr [''foo'' \<mapsto> ''bar'']"
    by (simp add: exWorld_def)
  have fs': "\<And>e d f. reflectFields (Config ((exPathsLoader e d)\<lparr>File := f\<rparr>)) = []"
    by (simp add: reflectFields_def exPathsLoader_def)
  have two': "Load exWorld (exPathsLoader [] [''/a.cfg'', ''/etc/agent.cfg'', ''/b.cfg''])
     = Returns ((exPathsLoader [] [''/a.cfg'', ''/etc/agent.cfg'', ''/b.cfg''])
                  \<lparr>File := Some \<lparr>Path = ''/etc/agent.cfg'', FileConfig = [''foo'' \<mapsto> ''bar'']\<rparr>\<rparr>,
                [], None)"
    using config_file_selection [where w = exWorld
        and l = "exPathsLoader [] [''/a.cfg'', ''/etc/agent.cfg'', ''/b.cfg'']"
        and pre = "[''/a.cfg'']" and p = "''/etc/agent.cfg''" and post = "[''/b.cfg'']"]
    by (simp add: c d ex ld fs)
  have three: "Load exWorld (exPathsLoader [] [''/a.cfg'', ''/b.cfg''])
     = Returns (exPathsLoader [] [''/a.cfg'', ''/b.cfg''], [], None)"
    using config_file_selection [where w = exWorld and l = "exPathsLoader [] [''/a.cfg'', ''/b.cfg'']"]
    by (simp add: c d fl ex fs)
  from one two two' three show ?thesis by blast
qed

text \<open>
  Claim C5. A field whose binding name holds \<^verbatim>\<open>arg:\<close> followed by the numeral of \<open>n\<close>
  (the first place where the pattern matches: no colon before it, no digit behind the
  numeral), with \<open>n\<close> below \<open>2^63\<close>. The resolved value is the positional argument with
  index \<open>n\<close> when there are more than \<open>n\<close> arguments; otherwise the value of the variable
  named by the \<^verbatim>\<open>env\<close> tag of the field, when the tag is there and the variable is set;
  otherwise it is nil. A string field is assigned that value, and is left as it was when
  the value is nil.
\<close>

theorem positional_argument_resolution:
  assumes "cliName = pre @ ''arg:'' @ decimal n @ post"
    and "CHR '':'' \<notin> set pre"
    and "post = [] \<or> hd post \<notin> set ''0123456789''"
    and "n < 2 ^ 63"
    and "lookupField (Config l) fieldName = Some fd"
  shows "resolveValue w l fieldName cliName k =
           Inr (if n < length (cli_Args (CLI l))
                then VString (cli_Args (CLI l) ! n)
                else if tagGet (f_tags fd) ''env'' = [] then VNil
                else (case environ w (tagGet (f_tags fd) ''env'') of
                        Some envValue \<Rightarrow> VString envValue
                      | None \<Rightarrow> VNil))
         \<and> (f_type fd = TString \<longrightarrow>
              setFieldValueFromCLI w l fieldName cliName =
                Inr (if n < length (cli_Args (CLI l))
                     then setValue l fieldName (VString (cli_Args (CLI l) ! n))
                     else if tagGet (f_tags fd) ''env'' = [] then l
                     else (case environ w (tagGet (f_tags fd) ''env'') of
                             Some envValue \<Rightarrow> setValue l fieldName (VString envValue)
                           | None \<Rightarrow> l)))"
proof -
  have d: "decimal n \<noteq> []" "list_all isDigit (decimal n)" "digitsValue (decimal n) = int n"
    using decimal_digits [of n] by simp_all
  from assms(3) have p: "post = [] \<or> \<not> isDigit (hd post)"
    by (simp add: isDigit_def)
  have m: "argCliNameRegexp cliName = Some (decimal n)"
    unfolding assms(1) using assms(2) d(1,2) p by (rule argCliNameRegexp_prefix)
  from assms(4) have "int n < 2 ^ 63"
    by (metis of_nat_less_iff of_nat_numeral of_nat_power)
  then have r: "digitsValue (decimal n) < 2 ^ 63"
    by (simp add: d(3))
  show ?thesis
    using positional_value_resolved [OF m r assms(5), of w k] by (simp add: d(3))
qed

theorem positional_argument_resolution_witness:
  "setFieldValueFromCLI exWorld (exArgNLoader ''arg:0'' [''value1'']) ''Arg'' ''arg:0''
     = Inr (setValue (exArgNLoader ''arg:0'' [''value1'']) ''Arg'' (VString ''value1''))
   \<and> setFieldValueFromCLI exWorld (exArgNLoader ''arg:1'' [''a'', ''b'', ''c'']) ''Arg'' ''arg:1''
     = Inr (setValue (exArgNLoader ''arg:1'' [''a'', ''b'', ''c'']) ''Arg'' (VString ''b''))
   \<and> setFieldValueFromCLI exWorld
         (exArgNLoader ''arg:12'' [''a0'', ''a1'', ''a2'', ''a3'', ''a4'', ''a5'', ''a6'', ''a7'', ''a8'',
                                   ''a9'', ''a10'', ''a11'', ''a12'']) ''Arg'' ''arg:12''
     = Inr (setValue
              (exArgNLoader ''arg:12'' [''a0'', ''a1'', ''a2'', ''a3'', ''a4'', ''a5'', ''a6'', ''a7'', ''a8'',
                                        ''a9'', ''a10'', ''a11'', ''a12''])
              ''Arg'' (VString ''a12''))
   \<and> setFieldValueFromCLI exWorld (exArgNLoader ''arg:1'' [''a'']) ''Arg'' ''arg:1''
     = Inr (setValue (exArgNLoader ''arg:1'' [''a'']) ''Arg'' (VString ''x''))
   \<and> setFieldValueFromCLI (exWorld\<lparr>environ := Map.empty\<rparr>) (exArgNLoader ''arg:1'' [''a'']) ''Arg'' ''arg:1''
     = Inr (exArgNLoader ''arg:1'' [''a''])"
proof -
  let ?fd = "\<lambda>c. \<lparr>f_name = ''Arg'', f_type = TString, f_tags = [(''cli'', c), (''env'', ''FOO'')]\<rparr>"
  have d0: "decimal 0 = ''0''"
    by (subst decimal.simps) (simp add: digitChar_def)
  have d1: "decimal 1 = ''1''"
    by (subst decimal.simps) (simp add: digitChar_def)
  have d1': "decimal (Suc 0) = ''1''"
    using d1 by simp
  have d12: "decimal 12 = ''12''"
    by (subst decimal.simps) (simp add: digitChar_def d1')
  note dec = d0 d1 d12
  have n0: "''arg:0'' = [] @ ''arg:'' @ decimal 0 @ []"
    and n1: "''arg:1'' = [] @ ''arg:'' @ decimal 1 @ []"
    and n12: "''arg:12'' = [] @ ''arg:'' @ decimal 12 @ []"
    unfolding dec by simp_all
  have pre: "CHR '':'' \<notin> set []" by simp
  have post: "[] = [] \<or> hd [] \<notin> set ''0123456789''" by simp
  have b: "(0::nat) < 2 ^ 63" "(1::nat) < 2 ^ 63" "(12::nat) < 2 ^ 63" by simp_all
  have f: "\<And>c args. lookupField (Config (exArgNLoader c args)) ''Arg'' = Some (?fd c)"
    by (simp add: lookupField_def exArgNLoader_def)
  have a: "\<And>c args. cli_Args (CLI (exArgNLoader c args)) = args"
    by (simp add: exArgNLoader_def)
  have env: "environ exWorld ''FOO'' = Some ''x''"
    by (simp add: exWorld_def)
  have one: "setFieldValueFromCLI exWorld (exArgNLoader ''arg:0'' [''value1'']) ''Arg'' ''arg:0''
     = Inr (setValue (exArgNLoader ''arg:0'' [''value1'']) ''Arg'' (VString ''value1''))"
    using positional_argument_resolution [where w = exWorld, OF n0 pre post b(1) f]
    by (simp add: a)
  have two: "setFieldValueFromCLI exWorld (exArgNLoader ''arg:1'' [''a'', ''b'', ''c'']) ''Arg'' ''arg:1''
     = Inr (setValue (exArgNLoader ''arg:1'' [''a'', ''b'', ''c'']) ''Arg'' (VString ''b''))"
    using positional_argument_resolution [where w = exWorld, OF n1 pre post b(2) f]
    by (simp add: a)
  have three: "setFieldValueFromCLI exWorld
         (exArgNLoader ''arg:12'' [''a0'', ''a1'', ''a2'', ''a3'', ''a4'', ''a5'', ''a6'', ''a7'', ''a8'',
                                   ''a9'', ''a10'', ''a11'', ''a12'']) ''Arg'' ''arg:12''
     = Inr (setValue
              (exArgNLoader ''arg:12'' [''a0'', ''a1'', ''a2'', ''a3'', ''a4'', ''a5'', ''a6'', ''a7'', ''a8'',
                                        ''a9'', ''a10'', ''a11'', ''a12''])
              ''Arg'' (VString ''a12''))"
    using positional_argument_resolution [where w = exWorld, OF n12 pre post b(3) f]
    by (simp add: a)
  have four: "setFieldValueFromCLI exWorld (exArgNLoader ''arg:1'' [''a'']) ''Arg'' ''arg:1''
     = Inr (setValue (exArgNLoader ''arg:1'' [''a'']) ''Arg'' (VString ''x''))"
    using positional_argument_resolution [where w = exWorld, OF n1 pre post b(2) f]
    by (simp add: a env)
  have five: "setFieldValueFromCLI (exWorld\<lparr>environ := Map.empty\<rparr>) (exArgNLoader ''arg:1'' [''a'']) ''Arg'' ''arg:1''
     = Inr (exArgNLoader ''arg:1'' [''a''])"
    using positional_argument_resolution [where w = "exWorld\<lparr>environ := Map.empty\<rparr>",
        OF n1 pre post b(2) f]
    by (simp add: a)
  from one two three four five show ?thesis by blast
qed

text \<open>
  Claim C6, as the code has it. A field of one of the four types the loader assigns,
  whose validation rules hold \<^verbatim>\<open>required\<close>, reached after the rules before it have passed:
  the validation of the field in \<^verbatim>\<open>Load\<close> stops with the error of \<^verbatim>\<open>Loader.Errorf\<close> for the
  format \<^verbatim>\<open>Missing %s.\<close> and the label exactly when the value of the field is the zero of
  its type. The label is the \<^verbatim>\<open>label\<close> tag when there is one, else the binding name when
  there is one, else the name of the field. When the names of the application and of the
  command hold no \<^verbatim>\<open>%\<close>, the message is \<^verbatim>\<open>Missing <label>.\<close> followed by the help hint.
\<close>

theorem required_rule:
  assumes "lookupField (Config l) fieldName = Some fd"
    and "f_type fd \<in> {TString, TStrings, TBool, TInt}"
    and "typeOf (Values (Config l) fieldName) = Some (f_type fd)"
    and "Split (tagGet (f_tags fd) ''validate'') CHR '','' = pre @ ''required'' # post"
    and "\<forall>label. validateRules w l fieldName label pre = Returns None"
  shows "let label = (if tagGet (f_tags fd) ''label'' \<noteq> [] then tagGet (f_tags fd) ''label''
                       else if cliName \<noteq> [] then cliName else fieldName);
             hint = '' See: `'' @ cli_AppName (CLI l) @ '' '' @ cli_CommandName (CLI l) @ '' --help`''
         in ((validateStep w fieldName cliName l warnings =
                Returns (l, warnings, Some (Formatted (''Missing %s.'' @ hint) [VString label])))
             = (Values (Config l) fieldName \<in> {VString [], VStrings [], VBool False, VInt 0}))
          \<and> (CHR ''%'' \<notin> set (cli_AppName (CLI l)) \<and> CHR ''%'' \<notin> set (cli_CommandName (CLI l)) \<longrightarrow>
               Sprintf (''Missing %s.'' @ hint) [VString label]
                 = Some (''Missing '' @ label @ ''.'' @ hint))"
proof -
  define label where "label = (if tagGet (f_tags fd) ''label'' \<noteq> [] then tagGet (f_tags fd) ''label''
                       else if cliName \<noteq> [] then cliName else fieldName)"
  define hint where "hint = '' See: `'' @ cli_AppName (CLI l) @ '' '' @ cli_CommandName (CLI l) @ '' --help`''"
  define zero where "zero = (Values (Config l) fieldName \<in> {VString [], VStrings [], VBool False, VInt 0})"
  define missing where "missing = Formatted (''Missing %s.'' @ hint) [VString label]"
  have lab: "fieldLabel (Config l) fieldName cliName = label"
    using assms(1) by (simp add: fieldLabel_def tagOf_found label_def Let_def)
  have tag: "tagOf (Config l) fieldName ''validate'' = tagGet (f_tags fd) ''validate''"
    using assms(1) by (rule tagOf_found)
  have nonempty: "tagGet (f_tags fd) ''validate'' \<noteq> []"
  proof
    assume "tagGet (f_tags fd) ''validate'' = []"
    with assms(4) have "[[]] = pre @ ''required'' # post" by simp
    then show False by (cases pre) auto
  qed
  have emp: "fieldValueIsEmpty l fieldName = Returns zero"
    unfolding zero_def using assms(1,2,3) by (rule fieldValueIsEmpty_plain)
  have err: "Errorf l ''Missing %s.'' [VString label] = missing"
    by (simp add: Errorf_def hint_def missing_def)
  have head: "validateRules w l fieldName label (''required'' # post) =
                 (if zero then Returns (Some missing) else validateRules w l fieldName label post)"
    by (simp only: validateRules.simps emp err outcome.case refl if_True)
  have before: "validateRules w l fieldName label pre = Returns None"
    using assms(5) by simp
  have rules: "validateField w l fieldName label (tagGet (f_tags fd) ''validate'') =
                 (if zero then Returns (Some missing) else validateRules w l fieldName label post)"
    by (simp only: validateField_def assms(4) validateRules_append before head
        outcome.case option.case)
  have step: "validateStep w fieldName cliName l warnings =
                (case validateField w l fieldName label (tagGet (f_tags fd) ''validate'') of
                   Panics m \<Rightarrow> Panics m
                 | Returns (Some e) \<Rightarrow> Returns (l, warnings, Some e)
                 | Returns None \<Rightarrow> Returns (l, warnings, None))"
    using nonempty by (simp add: validateStep_def tag lab)
  have iff: "(validateStep w fieldName cliName l warnings = Returns (l, warnings, Some missing)) = zero"
  proof (cases zero)
    case True
    then show ?thesis by (simp add: step rules)
  next
    case False
    with emp have "validateRules w l fieldName label post \<noteq> Returns (Some missing)"
      by (simp add: validateRules_not_empty missing_def)
    with False show ?thesis
      by (auto simp: step rules split: outcome.splits option.splits)
  qed
  have msg: "Sprintf (''Missing %s.'' @ hint) [VString label] = Some (''Missing '' @ label @ ''.'' @ hint)"
    if "CHR ''%'' \<notin> set (cli_AppName (CLI l)) \<and> CHR ''%'' \<notin> set (cli_CommandName (CLI l))"
  proof -
    from that have "CHR ''%'' \<notin> set hint"
      by (simp add: hint_def)
    then show ?thesis by (rule Sprintf_missing)
  qed
  from iff msg show ?thesis
    unfolding Let_def label_def [symmetric] hint_def [symmetric] zero_def [symmetric]
      missing_def [symmetric]
    by blast
qed

theorem required_rule_witness:
  "validateStep exWorld ''Token'' ''token'' (exTokenLoader [] []) []
     = Returns (exTokenLoader [] [], [],
         Some (Formatted ''Missing %s. See: `agent start --help`'' [VString ''token'']))
   \<and> Sprintf ''Missing %s. See: `agent start --help`'' [VString ''token'']
     = Some ''Missing token. See: `agent start --help`''
   \<and> validateStep exWorld ''Token'' ''token'' (exTokenLoader ''access token'' []) []
     = Returns (exTokenLoader ''access token'' [], [],
         Some (Formatted ''Missing %s. See: `agent start --help`'' [VString ''access token'']))
   \<and> validateStep exWorld ''Token'' ''token'' (exTokenLoader [] ''secret'') []
     \<noteq> Returns (exTokenLoader [] ''secret'', [],
         Some (Formatted ''Missing %s. See: `agent start --help`'' [VString ''token'']))"
proof -
  let ?fd = "\<lambda>lt. \<lparr>f_name = ''Token'', f_type = TString,
                    f_tags = [(''cli'', ''token''), (''label'', lt), (''validate'', ''required'')]\<rparr>"
  have f: "\<And>lt tk. lookupField (Config (exTokenLoader lt tk)) ''Token'' = Some (?fd lt)"
    by (simp add: lookupField_def exTokenLoader_def)
  have t: "\<And>lt. f_type (?fd lt) \<in> {TString, TStrings, TBool, TInt}"
    by simp
  have v: "\<And>lt tk. Values (Config (exTokenLoader lt tk)) ''Token'' = VString tk"
    by (simp add: exTokenLoader_def)
  have ty: "\<And>lt tk. typeOf (Values (Config (exTokenLoader lt tk)) ''Token'') = Some (f_type (?fd lt))"
    by (simp add: v)
  have sp: "\<And>lt. Split (tagGet (f_tags (?fd lt)) ''validate'') CHR '','' = [] @ ''required'' # []"
    by simp
  have pre: "\<And>lt tk. \<forall>label. validateRules exWorld (exTokenLoader lt tk) ''Token'' label [] = Returns None"
    by simp
  have names: "\<And>lt tk. cli_AppName (CLI (exTokenLoader lt tk)) = ''agent''
                 \<and> cli_CommandName (CLI (exTokenLoader lt tk)) = ''start''"
    by (simp add: exTokenLoader_def exContext_def)
  note inst = required_rule [where w = exWorld and cliName = "''token''" and warnings = "[]",
      OF f t ty sp pre]
  have one: "validateStep exWorld ''Token'' ''token'' (exTokenLoader [] []) []
     = Returns (exTokenLoader [] [], [],
         Some (Formatted ''Missing %s. See: `agent start --help`'' [VString ''token'']))
     \<and> Sprintf ''Missing %s. See: `agent start --help`'' [VString ''token'']
     = Some ''Missing token. See: `agent start --help`''"
    using inst [of "[]" "[]"] by (simp add: v names)
  have two: "validateStep exWorld ''Token'' ''token'' (exTokenLoader ''access token'' []) []
     = Returns (exTokenLoader ''access token'' [], [],
         Some (Formatted ''Missing %s. See: `agent start --help`'' [VString ''access token'']))"
    using inst [of "''access token''" "[]"] by (simp add: v names)
  have three: "validateStep exWorld ''Token'' ''token'' (exTokenLoader [] ''secret'') []
     \<noteq> Returns (exTokenLoader [] ''secret'', [],
         Some (Formatted ''Missing %s. See: `agent start --help`'' [VString ''token'']))"
    using inst [of "[]" "''secret''"] by (simp add: v names)
  from one two three show ?thesis by blast
qed

text \<open>
  The claim C6 as stated fails on two configurations, each with the rule \<^verbatim>\<open>required\<close> on
  an empty value. A field of a named string type that is empty: the comparison with the
  empty \<^verbatim>\<open>string\<close> is false, and \<^verbatim>\<open>Load\<close> returns no error. A string field with the rules
  \<^verbatim>\<open>file-exists,required\<close>: the first rule fails, and the error is not the one of
  \<^verbatim>\<open>required\<close>.
\<close>

theorem required_rule_exceptions:
  "Load exWorld exSecretLoader = Returns (exSecretLoader, [], None)
   \<and> Load exWorld exPidLoader = Returns (exPidLoader, [], Some (CouldNotFind ''PidFile'' (VString [])))"
proof -
  have s1: "Load exWorld exSecretLoader = loadFields exWorld [''Token''] exSecretLoader []"
    by (simp add: Load_without_file reflectFields_def exSecretLoader_def exContext_def)
  have tags1: "\<And>key. tagOf (Config exSecretLoader) ''Token'' key
                 = (if key = ''validate'' then ''required'' else [])"
    by (simp add: tagOf_def GetFieldTag_def lookupField_def exSecretLoader_def)
  have e1: "fieldValueIsEmpty exSecretLoader ''Token'' = Returns False"
    by (simp add: fieldValueIsEmpty_def kindOrInvalid_def GetFieldKind_def GetField_def
        lookupField_def exSecretLoader_def)
  have v1: "validateField exWorld exSecretLoader ''Token'' ''Token'' ''required'' = Returns None"
    by (simp add: validateField_def e1)
  have l1: "fieldLabel (Config exSecretLoader) ''Token'' [] = ''Token''"
    by (simp add: fieldLabel_def tags1)
  have f1: "loadField exWorld ''Token'' exSecretLoader [] = Returns (exSecretLoader, [], None)"
    by (simp add: loadField_def tags1 resolveStep_def normalizeStep_def renameStep_def
        deprecatedStep_def validateStep_def l1 v1 andThen_def)
  have one: "Load exWorld exSecretLoader = Returns (exSecretLoader, [], None)"
    by (simp add: s1 f1 andThen_def)
  have s2: "Load exWorld exPidLoader = loadFields exWorld [''PidFile''] exPidLoader []"
    by (simp add: Load_without_file reflectFields_def exPidLoader_def exContext_def)
  have tags2: "\<And>key. tagOf (Config exPidLoader) ''PidFile'' key
                 = (if key = ''validate'' then ''file-exists,required'' else [])"
    by (simp add: tagOf_def GetFieldTag_def lookupField_def exPidLoader_def)
  have g2: "GetField (Config exPidLoader) ''PidFile'' = VString []"
    by (simp add: GetField_def lookupField_def exPidLoader_def)
  have st: "\<not> statOk exWorld []"
    by (simp add: exWorld_def)
  have v2: "validateField exWorld exPidLoader ''PidFile'' ''PidFile'' ''file-exists,required''
              = Returns (Some (CouldNotFind ''PidFile'' (VString [])))"
    by (simp add: validateField_def g2 st)
  have l2: "fieldLabel (Config exPidLoader) ''PidFile'' [] = ''PidFile''"
    by (simp add: fieldLabel_def tags2)
  have f2: "loadField exWorld ''PidFile'' exPidLoader []
              = Returns (exPidLoader, [], Some (CouldNotFind ''PidFile'' (VString [])))"
    by (simp add: loadField_def tags2 resolveStep_def normalizeStep_def renameStep_def
        deprecatedStep_def validateStep_def l2 v2 andThen_def)
  have two: "Load exWorld exPidLoader
               = Returns (exPidLoader, [], Some (CouldNotFind ''PidFile'' (VString [])))"
    by (simp add: s2 f2 andThen_def)
  from one two show ?thesis by blast
qed

text \<open>
  Claim C7. The \<^verbatim>\<open>list\<close> normalization of a \<^verbatim>\<open>[]string\<close> field replaces its value
  by the non-empty comma-separated tokens of its elements, in order: no token of the
  result is empty or holds a comma, and the tokens written one after the other are the
  elements written one after the other without their commas. The example
  \<^verbatim>\<open>["a,b", "", "c"]\<close> becomes \<^verbatim>\<open>["a", "b", "c"]\<close>.
\<close>

theorem list_normalization:
  assumes "lookupField (Config l) fieldName = Some fd"
    and "f_type fd = TStrings"
    and "Values (Config l) fieldName = VStrings xs"
  shows "\<exists>ys. normalizeField w l fieldName ''list'' = Inr (setValue l fieldName (VStrings ys))
           \<and> ys = concat (map (\<lambda>x. filter (\<lambda>t. t \<noteq> []) (Split x CHR '','')) xs)
           \<and> (\<forall>t \<in> set ys. t \<noteq> [] \<and> CHR '','' \<notin> set t)
           \<and> concat ys = filter (\<lambda>c. c \<noteq> CHR '','') (concat xs)"
proof -
  let ?ys = "concat (map (\<lambda>x. filter (\<lambda>t. t \<noteq> []) (Split x CHR '','')) xs)"
  have norm: "normalizeSlice [] xs = ?ys"
    by (simp add: normalizeSlice_concat)
  have set: "SetField (Config l) fieldName (VStrings ?ys)
               = Inr ((Config l)\<lparr>Values := (Values (Config l))(fieldName := VStrings ?ys)\<rparr>)"
    using assms(1,2) by (simp add: SetField_typed)
  have run: "normalizeField w l fieldName ''list'' = Inr (setValue l fieldName (VStrings ?ys))"
    using assms set
    by (simp add: normalizeField_def kindOrInvalid_found GetField_found norm
        setNormalized_def setValue_def)
  have tokens: "\<forall>t \<in> set ?ys. t \<noteq> [] \<and> CHR '','' \<notin> set t"
    by (auto dest: Split_no_sep)
  have order: "concat ?ys = filter (\<lambda>c. c \<noteq> CHR '','') (concat xs)"
    by (rule concat_tokens)
  from run tokens order show ?thesis by blast
qed

theorem list_normalization_witness:
  "normalizeField exWorld exTagsLoader ''Tags'' ''list''
     = Inr (setValue exTagsLoader ''Tags'' (VStrings [''a'', ''b'', ''c'']))"
proof -
  have a: "lookupField (Config exTagsLoader) ''Tags'' = Some exTagsField"
    by (simp add: lookupField_def exTagsLoader_def exTagsField_def)
  have b: "f_type exTagsField = TStrings"
    by (simp add: exTagsField_def)
  have c: "Values (Config exTagsLoader) ''Tags'' = VStrings [''a,b'', [], ''c'']"
    by (simp add: exTagsLoader_def)
  show ?thesis
    using list_normalization [OF a b c, of exWorld] by simp
qed

text \<open>
  Claim C8. When no value was determined for a field (the resolved \<^verbatim>\<open>value\<close> is nil),
  \<^verbatim>\<open>setFieldValueFromCLI\<close> returns without error and leaves the whole configuration as
  it was. Whenever it returns without error, it has either changed nothing or assigned
  a value that is not nil to the field.
\<close>

theorem unresolved_field_untouched:
  assumes "GetFieldKind (Config l) fieldName = Some k"
  shows "(resolveValue w l fieldName cliName k = Inr VNil \<longrightarrow>
            setFieldValueFromCLI w l fieldName cliName = Inr l)
         \<and> (\<forall>l'. setFieldValueFromCLI w l fieldName cliName = Inr l' \<longrightarrow>
               l' = l \<or> (\<exists>v. v \<noteq> VNil \<and> l' = setValue l fieldName v))"
proof -
  have keep: "resolveValue w l fieldName cliName k = Inr VNil \<longrightarrow>
            setFieldValueFromCLI w l fieldName cliName = Inr l"
    using assms by (simp add: setFieldValueFromCLI_def)
  have assign: "l' = l \<or> (\<exists>v. v \<noteq> VNil \<and> l' = setValue l fieldName v)"
    if run: "setFieldValueFromCLI w l fieldName cliName = Inr l'" for l'
  proof (cases "resolveValue w l fieldName cliName k")
    case (Inl e)
    with run assms show ?thesis
      by (simp add: setFieldValueFromCLI_def)
  next
    case (Inr v)
    show ?thesis
    proof (cases "v = VNil")
      case True
      with run assms Inr show ?thesis
        by (simp add: setFieldValueFromCLI_def)
    next
      case False
      with run assms Inr have "l' = setValue l fieldName v"
        by (auto simp: setFieldValueFromCLI_def SetField_def setValue_def
            split: sum.splits option.splits if_splits)
      with False show ?thesis by blast
    qed
  qed
  from keep assign show ?thesis by blast
qed

theorem unresolved_field_untouched_witness:
  "resolveValue (exWorld\<lparr>environ := Map.empty\<rparr>) (exArgLoader []) ''Arg'' ''arg:0'' KString = Inr VNil
   \<and> setFieldValueFromCLI (exWorld\<lparr>environ := Map.empty\<rparr>) (exArgLoader []) ''Arg'' ''arg:0''
       = Inr (exArgLoader [])"
proof -
  have k: "GetFieldKind (Config (exArgLoader [])) ''Arg'' = Some KString"
    by (simp add: GetFieldKind_def lookupField_def exArgLoader_def exArgField_def)
  have t: "GetFieldTag (Config (exArgLoader [])) ''Arg'' ''env'' = Some ''FOO''"
    by (simp add: GetFieldTag_def lookupField_def exArgLoader_def exArgField_def)
  have a: "Atoi ''0'' = (0, None)"
    by (simp add: Atoi_def isDigit_def digitsValue_def)
  have args: "cli_Args (CLI (exArgLoader [])) = []"
    by (simp add: exArgLoader_def)
  have r: "resolveValue (exWorld\<lparr>environ := Map.empty\<rparr>) (exArgLoader []) ''Arg'' ''arg:0'' KString
             = Inr VNil"
    by (simp add: resolveValue_def isDigit_def positionalValue_def a t LookupEnv_def args)
  show ?thesis
    using unresolved_field_untouched [where w = "exWorld\<lparr>environ := Map.empty\<rparr>"
        and cliName = "''arg:0''", OF k] r
    by simp
qed

text \<open>
  Claim C9, as the code has it. For a field whose kind is none of string, slice, bool and
  int, the emptiness check panics, with the message that ends with the name of the kind.
  When \<^verbatim>\<open>Load\<close> comes to such a field that has no binding name and no normalization, and
  that is renamed, deprecated or has \<^verbatim>\<open>required\<close> as its first rule, the check is made
  and \<^verbatim>\<open>Load\<close> panics. When the field has a named binding (a \<^verbatim>\<open>cli\<close> tag without a
  colon), no check is made: \<^verbatim>\<open>Load\<close> returns one of the two errors for a type it cannot
  convert or handle.
\<close>

theorem unsupported_kind_emptiness_panics:
  assumes "selectFile w l0 = Inr ls"
    and "loadFile w ls = Inr l1"
    and "reflectFields (Config l1) = pre @ fieldName # post"
    and "loadFields w pre l1 [] = Returns (l, ws, None)"
    and "lookupField (Config l) fieldName = Some fd"
    and "kindOf (f_type fd) \<notin> {KString, KSlice, KBool, KInt}"
  shows "fieldValueIsEmpty l fieldName = Panics (emptinessPanic (kindOf (f_type fd)))
         \<and> (tagGet (f_tags fd) ''cli'' = [] \<and> tagGet (f_tags fd) ''normalize'' = []
              \<and> (tagGet (f_tags fd) ''deprecated-and-renamed-to'' \<noteq> []
                  \<or> tagGet (f_tags fd) ''deprecated'' \<noteq> []
                  \<or> (\<exists>rules. Split (tagGet (f_tags fd) ''validate'') CHR '','' = ''required'' # rules))
              \<longrightarrow> Load w l0 = Panics (emptinessPanic (kindOf (f_type fd))))
         \<and> (tagGet (f_tags fd) ''cli'' \<noteq> [] \<and> CHR '':'' \<notin> set (tagGet (f_tags fd) ''cli'')
              \<longrightarrow> Load w l0 = Returns (l, ws, Some (UnableToConvert (kindOf (f_type fd))))
                  \<or> Load w l0 = Returns (l, ws, Some (UnableToHandle (kindOf (f_type fd)))))"
proof -
  define k where "k = kindOf (f_type fd)"
  have kind: "kindOrInvalid (Config l) fieldName = k"
    using assms(5) by (simp add: kindOrInvalid_found k_def)
  have tags: "\<And>key. tagOf (Config l) fieldName key = tagGet (f_tags fd) key"
    using assms(5) by (rule tagOf_found)
  have at: "Load w l0 = andThen (loadField w fieldName l ws) (loadFields w post)"
    using assms(1,2,3,4) by (rule Load_at_field)
  have p: "fieldValueIsEmpty l fieldName = Panics (emptinessPanic k)"
    using assms(6) by (simp add: fieldValueIsEmpty_def kind k_def [symmetric])
  have unbound: "Load w l0 = Panics (emptinessPanic k)"
    if u: "tagGet (f_tags fd) ''cli'' = [] \<and> tagGet (f_tags fd) ''normalize'' = []
              \<and> (tagGet (f_tags fd) ''deprecated-and-renamed-to'' \<noteq> []
                  \<or> tagGet (f_tags fd) ''deprecated'' \<noteq> []
                  \<or> (\<exists>rules. Split (tagGet (f_tags fd) ''validate'') CHR '','' = ''required'' # rules))"
  proof -
    have r: "resolveStep w fieldName [] l ws = Returns (l, ws, None)"
      by (simp add: resolveStep_def)
    have n: "normalizeStep w fieldName l ws = Returns (l, ws, None)"
      using u by (simp add: normalizeStep_def tags)
    have body: "loadField w fieldName l ws =
                  andThen (renameStep fieldName [] l ws) (\<lambda>l3 w3.
                  andThen (deprecatedStep fieldName [] l3 w3) (\<lambda>l4 w4.
                  validateStep w fieldName [] l4 w4))"
      using u by (simp add: loadField_def tags r n andThen_Returns)
    have "loadField w fieldName l ws = Panics (emptinessPanic k)"
    proof (cases "tagGet (f_tags fd) ''deprecated-and-renamed-to'' \<noteq> []")
      case True
      then have "renameStep fieldName [] l ws = Panics (emptinessPanic k)"
        by (simp add: renameStep_def tags p)
      then show ?thesis by (simp add: body andThen_def)
    next
      case no_rename: False
      then have rn: "renameStep fieldName [] l ws = Returns (l, ws, None)"
        by (simp add: renameStep_def tags)
      show ?thesis
      proof (cases "tagGet (f_tags fd) ''deprecated'' \<noteq> []")
        case True
        then have "deprecatedStep fieldName [] l ws = Panics (emptinessPanic k)"
          by (simp add: deprecatedStep_def tags p)
        then show ?thesis by (simp add: body rn andThen_def)
      next
        case False
        then have dp: "deprecatedStep fieldName [] l ws = Returns (l, ws, None)"
          by (simp add: deprecatedStep_def tags)
        from u no_rename False obtain rules
          where sp: "Split (tagGet (f_tags fd) ''validate'') CHR '','' = ''required'' # rules"
          by blast
        then have ne: "tagGet (f_tags fd) ''validate'' \<noteq> []"
          by auto
        have "validateStep w fieldName [] l ws = Panics (emptinessPanic k)"
          using ne by (simp add: validateStep_def tags validateField_def sp p)
        then show ?thesis by (simp add: body rn dp andThen_def)
      qed
    qed
    then show ?thesis by (simp add: at andThen_def)
  qed
  have named: "Load w l0 = Returns (l, ws, Some (UnableToConvert k))
               \<or> Load w l0 = Returns (l, ws, Some (UnableToHandle k))"
    if b: "tagGet (f_tags fd) ''cli'' \<noteq> [] \<and> CHR '':'' \<notin> set (tagGet (f_tags fd) ''cli'')"
  proof -
    from b have m: "argCliNameRegexp (tagGet (f_tags fd) ''cli'') = None"
      by (simp add: argCliNameRegexp_no_colon)
    have gk: "GetFieldKind (Config l) fieldName = Some k"
      using assms(5) by (simp add: GetFieldKind_found k_def)
    from named_unsupported_kind_fails [OF m gk, of w] assms(6)
    consider "setFieldValueFromCLI w l fieldName (tagGet (f_tags fd) ''cli'') = Inl (UnableToConvert k)"
      | "setFieldValueFromCLI w l fieldName (tagGet (f_tags fd) ''cli'') = Inl (UnableToHandle k)"
      by (auto simp: k_def)
    then show ?thesis
    proof cases
      case 1
      with b have "loadField w fieldName l ws = Returns (l, ws, Some (UnableToConvert k))"
        by (simp add: loadField_def tags resolveStep_def andThen_def)
      then show ?thesis by (simp add: at andThen_def)
    next
      case 2
      with b have "loadField w fieldName l ws = Returns (l, ws, Some (UnableToHandle k))"
        by (simp add: loadField_def tags resolveStep_def andThen_def)
      then show ?thesis by (simp add: at andThen_def)
    qed
  qed
  from p unbound named show ?thesis
    unfolding k_def by blast
qed

lemma exRatio_start:
  "selectFile exWorld (exRatioLoader tags) = Inr (exRatioLoader tags)"
  "loadFile exWorld (exRatioLoader tags) = Inr (exRatioLoader tags)"
  "reflectFields (Config (exRatioLoader tags)) = [] @ ''Ratio'' # []"
  "loadFields exWorld [] (exRatioLoader tags) [] = Returns (exRatioLoader tags, [], None)"
  "lookupField (Config (exRatioLoader tags)) ''Ratio''
     = Some \<lparr>f_name = ''Ratio'', f_type = TOther (KOther ''float64'') ''float64'', f_tags = tags\<rparr>"
  by (simp_all add: selectFile_def loadFile_def reflectFields_def lookupField_def
      exRatioLoader_def exContext_def)

lemma exRatio_bound:
  "Load exWorld (exRatioLoader [(''cli'', ''ratio''), (''deprecated'', ''no longer used'')])
     = Returns (exRatioLoader [(''cli'', ''ratio''), (''deprecated'', ''no longer used'')], [],
         Some (UnableToHandle (KOther ''float64'')))"
proof -
  define L where "L = exRatioLoader [(''cli'', ''ratio''), (''deprecated'', ''no longer used'')]"
  have tag: "tagOf (Config L) ''Ratio'' ''cli'' = ''ratio''"
    by (simp add: L_def tagOf_found [OF exRatio_start(5)])
  have kind: "GetFieldKind (Config L) ''Ratio'' = Some (KOther ''float64'')"
    by (simp add: L_def GetFieldKind_found [OF exRatio_start(5)])
  have nofile: "File L = None"
    by (simp add: L_def exRatioLoader_def)
  have "resolveValue exWorld L ''Ratio'' ''ratio'' (KOther ''float64'')
          = Inl (UnableToHandle (KOther ''float64''))"
    by (simp add: resolveValue_def configFileValue_def nofile contextValue_def)
  then have "setFieldValueFromCLI exWorld L ''Ratio'' ''ratio'' = Inl (UnableToHandle (KOther ''float64''))"
    by (simp add: setFieldValueFromCLI_def kind)
  then have "loadField exWorld ''Ratio'' L [] = Returns (L, [], Some (UnableToHandle (KOther ''float64'')))"
    by (simp add: loadField_def tag resolveStep_def andThen_def)
  moreover have "Load exWorld L = andThen (loadField exWorld ''Ratio'' L []) (loadFields exWorld [])"
    unfolding L_def by (rule Load_at_field [OF exRatio_start(1,2,3,4)])
  ultimately show ?thesis
    by (simp add: andThen_def L_def)
qed

theorem unsupported_kind_emptiness_panics_witness:
  "Load exWorld (exRatioLoader [(''deprecated'', ''no longer used'')])
     = Panics ''Can't determine empty-ness for field type float64''
   \<and> Load exWorld (exRatioLoader [(''validate'', ''required'')])
     = Panics ''Can't determine empty-ness for field type float64''
   \<and> (Load exWorld (exRatioLoader [(''cli'', ''ratio''), (''deprecated'', ''no longer used'')])
         = Returns (exRatioLoader [(''cli'', ''ratio''), (''deprecated'', ''no longer used'')], [],
             Some (UnableToConvert (KOther ''float64'')))
       \<or> Load exWorld (exRatioLoader [(''cli'', ''ratio''), (''deprecated'', ''no longer used'')])
         = Returns (exRatioLoader [(''cli'', ''ratio''), (''deprecated'', ''no longer used'')], [],
             Some (UnableToHandle (KOther ''float64''))))"
proof -
  have k: "kindOf (f_type \<lparr>f_name = ''Ratio'', f_type = TOther (KOther ''float64'') ''float64'',
                            f_tags = tags\<rparr>) \<notin> {KString, KSlice, KBool, KInt}" for tags
    by simp
  note inst = unsupported_kind_emptiness_panics [OF exRatio_start k]
  have one: "Load exWorld (exRatioLoader [(''deprecated'', ''no longer used'')])
     = Panics ''Can't determine empty-ness for field type float64''"
    using inst [of "[(''deprecated'', ''no longer used'')]"]
    by (simp add: emptinessPanic_def)
  have two: "Load exWorld (exRatioLoader [(''validate'', ''required'')])
     = Panics ''Can't determine empty-ness for field type float64''"
    using inst [of "[(''validate'', ''required'')]"]
    by (simp add: emptinessPanic_def)
  have three: "Load exWorld (exRatioLoader [(''cli'', ''ratio''), (''deprecated'', ''no longer used'')])
         = Returns (exRatioLoader [(''cli'', ''ratio''), (''deprecated'', ''no longer used'')], [],
             Some (UnableToConvert (KOther ''float64'')))
       \<or> Load exWorld (exRatioLoader [(''cli'', ''ratio''), (''deprecated'', ''no longer used'')])
         = Returns (exRatioLoader [(''cli'', ''ratio''), (''deprecated'', ''no longer used'')], [],
             Some (UnableToHandle (KOther ''float64'')))"
    using inst [of "[(''cli'', ''ratio''), (''deprecated'', ''no longer used'')]"]
    by simp
  from one two three show ?thesis by blast
qed

text \<open>
  The claim C9 as stated concludes that the metadata on a field of an unsupported kind
  aborts the program. Here a \<^verbatim>\<open>float64\<close> field is deprecated and bound to the flag
  \<^verbatim>\<open>ratio\<close>: \<^verbatim>\<open>Load\<close> returns an error and does not panic.
\<close>

theorem bound_unsupported_kind_returns_error:
  "Load exWorld (exRatioLoader [(''cli'', ''ratio''), (''deprecated'', ''no longer used'')])
     = Returns (exRatioLoader [(''cli'', ''ratio''), (''deprecated'', ''no longer used'')], [],
         Some (UnableToHandle (KOther ''float64'')))"
  by (rule exRatio_bound)

text \<open>
  Claim C10. On a field whose value is not a \<^verbatim>\<open>string\<close>, the rule \<^verbatim>\<open>file-exists\<close>
  does nothing, whatever the file system holds: validation goes on with the rules that
  follow, and the rule alone validates without an error.
\<close>

theorem file_exists_skips_non_strings:
  assumes "\<forall>s. GetField (Config l) fieldName \<noteq> VString s"
  shows "validateRules w l fieldName label (''file-exists'' # rules)
           = validateRules w l fieldName label rules
         \<and> validateField w l fieldName label ''file-exists'' = Returns None"
proof -
  have skip: "\<And>rs. validateRules w l fieldName label (''file-exists'' # rs)
                = validateRules w l fieldName label rs"
    using assms by (cases "GetField (Config l) fieldName") simp_all
  have split: "Split ''file-exists'' CHR '','' = [''file-exists'']"
    by simp
  have "validateField w l fieldName label ''file-exists'' = Returns None"
    unfolding validateField_def split skip by simp
  with skip show ?thesis by simp
qed

theorem file_exists_skips_non_strings_witness:
  "(\<forall>s. GetField (Config exPortLoader) ''Port'' \<noteq> VString s)
   \<and> statOk exWorld ''8080'' = False
   \<and> validateField exWorld exPortLoader ''Port'' ''Port'' ''file-exists'' = Returns None
   \<and> validateStep exWorld ''Port'' [] exPortLoader [] = Returns (exPortLoader, [], None)"
proof -
  have a: "\<forall>s. GetField (Config exPortLoader) ''Port'' \<noteq> VString s"
    by (simp add: GetField_def lookupField_def exPortLoader_def)
  have b: "tagOf (Config exPortLoader) ''Port'' ''validate'' = ''file-exists''"
    by (simp add: tagOf_def GetFieldTag_def lookupField_def exPortLoader_def)
  have c: "validateField exWorld exPortLoader ''Port'' ''Port'' ''file-exists'' = Returns None"
    using file_exists_skips_non_strings [OF a] by simp
  have d: "fieldLabel (Config exPortLoader) ''Port'' [] = ''Port''"
    by (simp add: fieldLabel_def tagOf_def GetFieldTag_def lookupField_def exPortLoader_def)
  show ?thesis
    using a c by (simp add: validateStep_def b d exWorld_def)
qed

end
